theory Spec2Isabelle
  imports Main
begin

section \<open>JavaScript values\<close>

text \<open>
  The values that travel through \<open>remote_execution.ts\<close>: what \<open>JSON.parse\<close> returns, what
  the fields of a message hold, and \<open>undefined\<close> for a property that is not there.
  Numbers are the integers (the protocol carries a version and a port); strings are lists of
  bytes; an object is the list of its own properties in insertion order, with distinct names.
\<close>

datatype jsval =
    JUndefined
  | JNull
  | JBool bool
  | JNum int
  | JStr string
  | JArr "jsval list"
  | JObj "(string \<times> jsval) list"

datatype error =
    SyntaxError
  | TypeError
  | Error string

text \<open>Truthiness, as \<open>if (x)\<close> and \<open>!x\<close> test it.\<close>

fun js_truthy :: "jsval \<Rightarrow> bool" where
  "js_truthy JUndefined = False"
| "js_truthy JNull = False"
| "js_truthy (JBool b) = b"
| "js_truthy (JNum n) = (n \<noteq> 0)"
| "js_truthy (JStr s) = (s \<noteq> [])"
| "js_truthy (JArr xs) = True"
| "js_truthy (JObj kvs) = True"

text \<open>
  The property read \<open>x['k']\<close>, for the names the source reads (none of them is \<open>length\<close>
  or an index): it throws a TypeError on \<open>null\<close> and \<open>undefined\<close>, finds an own property
  of an object, and is \<open>undefined\<close> everywhere else.
\<close>

fun js_get :: "jsval \<Rightarrow> string \<Rightarrow> error + jsval" where
  "js_get JUndefined k = Inl TypeError"
| "js_get JNull k = Inl TypeError"
| "js_get (JObj kvs) k = (case map_of kvs k of None \<Rightarrow> Inr JUndefined | Some v \<Rightarrow> Inr v)"
| "js_get v k = Inr JUndefined"

text \<open>Decimal digits of a number, as a template literal prints it.\<close>

function show_nat :: "nat \<Rightarrow> string" where
  "show_nat n =
     (if n < 10 then [''0123456789'' ! n]
      else show_nat (n div 10) @ [''0123456789'' ! (n mod 10)])"
  by pat_completeness auto
termination
  by (relation "measure (\<lambda>n. n)") auto

definition show_int :: "int \<Rightarrow> string" where
  "show_int i = (if i < 0 then CHR ''-'' # show_nat (nat (- i)) else show_nat (nat i))"

text \<open>Reading decimal digits, and the names that are array indices (\<open>"0"\<close>, \<open>"1"\<close>, ... up to
  \<open>"4294967294"\<close>, with no leading zero).\<close>

definition is_digit :: "char \<Rightarrow> bool" where
  "is_digit c = (48 \<le> (of_char c :: nat) \<and> (of_char c :: nat) \<le> 57)"

definition digit_val :: "char \<Rightarrow> nat" where
  "digit_val c = of_char c - 48"

definition digits_nat :: "string \<Rightarrow> nat" where
  "digits_nat s = foldl (\<lambda>n c. 10 * n + digit_val c) 0 s"

definition array_index :: "string \<Rightarrow> nat option" where
  "array_index k =
     (if k = ''0'' then Some 0
      else if k \<noteq> [] \<and> hd k \<noteq> CHR ''0'' \<and> list_all is_digit k \<and> digits_nat k \<le> 4294967294
        then Some (digits_nat k)
      else None)"

fun join_with :: "string \<Rightarrow> string list \<Rightarrow> string" where
  "join_with sep [] = []"
| "join_with sep [x] = x"
| "join_with sep (x # y # ys) = x @ sep @ join_with sep (y # ys)"

text \<open>
  \<open>ToString\<close>, the conversion a template literal \<open>${x}\<close> applies: an array joins its
  elements with commas, \<open>null\<close> and \<open>undefined\<close> elements printing as nothing.
\<close>

fun ToString :: "jsval \<Rightarrow> string"
  and ToString_elems :: "jsval list \<Rightarrow> string list" where
  "ToString JUndefined = ''undefined''"
| "ToString JNull = ''null''"
| "ToString (JBool b) = (if b then ''true'' else ''false'')"
| "ToString (JNum n) = show_int n"
| "ToString (JStr s) = s"
| "ToString (JArr xs) = join_with '','' (ToString_elems xs)"
| "ToString (JObj kvs) = ''[object Object]''"
| "ToString_elems [] = []"
| "ToString_elems (x # xs) =
     (if x = JUndefined \<or> x = JNull then [] else ToString x) # ToString_elems xs"

text \<open>
  What the runtime supplies and the source only calls: \<open>JSON.parse\<close> (\<open>None\<close> when it
  throws a SyntaxError) and the conversion of a string to a number that \<open>==\<close> applies when
  it compares a string with a number (\<open>None\<close> when the string is no numeral, or none of an
  integer).
\<close>

record builtins =
  JSON_parse :: "string \<Rightarrow> jsval option"
  StringToNumber :: "string \<Rightarrow> int option"

text \<open>
  The loose equality \<open>x == s\<close> against a string and \<open>x == n\<close> against a number, which
  is what \<open>!=\<close> negates. \<open>null\<close> and \<open>undefined\<close> equal neither; a boolean is compared
  as 0 or 1; an array or object is first converted to its string.
\<close>

fun js_eq_str :: "builtins \<Rightarrow> jsval \<Rightarrow> string \<Rightarrow> bool" where
  "js_eq_str env JUndefined s = False"
| "js_eq_str env JNull s = False"
| "js_eq_str env (JBool b) s = (StringToNumber env s = Some (if b then 1 else 0))"
| "js_eq_str env (JNum n) s = (StringToNumber env s = Some n)"
| "js_eq_str env (JStr t) s = (t = s)"
| "js_eq_str env (JArr xs) s = (ToString (JArr xs) = s)"
| "js_eq_str env (JObj kvs) s = (ToString (JObj kvs) = s)"

fun js_eq_num :: "builtins \<Rightarrow> jsval \<Rightarrow> int \<Rightarrow> bool" where
  "js_eq_num env JUndefined n = False"
| "js_eq_num env JNull n = False"
| "js_eq_num env (JBool b) n = ((if b then 1 else 0) = n)"
| "js_eq_num env (JNum m) n = (m = n)"
| "js_eq_num env (JStr t) n = (StringToNumber env t = Some n)"
| "js_eq_num env (JArr xs) n = (StringToNumber env (ToString (JArr xs)) = Some n)"
| "js_eq_num env (JObj kvs) n = False"

subsection \<open>JSON.stringify\<close>

text \<open>
  \<open>JSON.stringify\<close> on these values: a property whose value is \<open>undefined\<close> is left out,
  an \<open>undefined\<close> array element is written \<open>null\<close>, and \<open>undefined\<close> itself has no
  text (\<open>None\<close>).
\<close>

definition hex_digit :: "nat \<Rightarrow> char" where
  "hex_digit n = ''0123456789abcdef'' ! (n mod 16)"

definition quote_char :: "char \<Rightarrow> string" where
  "quote_char c =
     (if c = CHR 0x22 then [CHR 0x5C, CHR 0x22]
      else if c = CHR 0x5C then [CHR 0x5C, CHR 0x5C]
      else if c = CHR 0x08 then [CHR 0x5C, CHR ''b'']
      else if c = CHR 0x0C then [CHR 0x5C, CHR ''f'']
      else if c = CHR 0x0A then [CHR 0x5C, CHR ''n'']
      else if c = CHR 0x0D then [CHR 0x5C, CHR ''r'']
      else if c = CHR 0x09 then [CHR 0x5C, CHR ''t'']
      else if (of_char c :: nat) < 32
        then [CHR 0x5C, CHR ''u'', CHR ''0'', CHR ''0'',
              hex_digit (of_char c div 16), hex_digit (of_char c)]
      else [c])"

definition quote :: "string \<Rightarrow> string" where
  "quote s = CHR 0x22 # concat (map quote_char s) @ [CHR 0x22]"

fun JSON_stringify :: "jsval \<Rightarrow> string option"
  and stringify_elems :: "jsval list \<Rightarrow> string list"
  and stringify_props :: "(string \<times> jsval) list \<Rightarrow> string list" where
  "JSON_stringify JUndefined = None"
| "JSON_stringify JNull = Some ''null''"
| "JSON_stringify (JBool b) = Some (if b then ''true'' else ''false'')"
| "JSON_stringify (JNum n) = Some (show_int n)"
| "JSON_stringify (JStr s) = Some (quote s)"
| "JSON_stringify (JArr xs) = Some (''['' @ join_with '','' (stringify_elems xs) @ '']'')"
| "JSON_stringify (JObj kvs) = Some (''{'' @ join_with '','' (stringify_props kvs) @ ''}'')"
| "stringify_elems [] = []"
| "stringify_elems (x # xs) =
     (case JSON_stringify x of None \<Rightarrow> ''null'' | Some t \<Rightarrow> t) # stringify_elems xs"
| "stringify_props [] = []"
| "stringify_props ((k, v) # kvs) =
     (case JSON_stringify v of
        None \<Rightarrow> stringify_props kvs
      | Some t \<Rightarrow> (quote k @ '':'' @ t) # stringify_props kvs)"

text \<open>\<open>JSON.stringify\<close> of an object literal, which always has a text.\<close>

definition JSON_stringify_object :: "(string \<times> jsval) list \<Rightarrow> string" where
  "JSON_stringify_object kvs = ''{'' @ join_with '','' (stringify_props kvs) @ ''}''"

subsection \<open>JSON values and JSON.parse\<close>

text \<open>
  A JSON value has no \<open>undefined\<close> in it, its numbers are integers that a double holds
  exactly, and the properties of its objects have distinct names in the order JavaScript
  keeps them: array indices first, ascending, then the other names as they were added.
\<close>

fun index_first :: "string list \<Rightarrow> bool" where
  "index_first [] = True"
| "index_first [k] = True"
| "index_first (k # k' # ks) =
     ((case array_index k of
         None \<Rightarrow> array_index k' = None
       | Some i \<Rightarrow> (case array_index k' of None \<Rightarrow> True | Some j \<Rightarrow> i < j))
      \<and> index_first (k' # ks))"

definition own_order :: "string list \<Rightarrow> bool" where
  "own_order ks = (distinct ks \<and> index_first ks)"

fun json_value :: "jsval \<Rightarrow> bool"
  and json_elems :: "jsval list \<Rightarrow> bool"
  and json_props :: "(string \<times> jsval) list \<Rightarrow> bool" where
  "json_value JUndefined = False"
| "json_value JNull = True"
| "json_value (JBool b) = True"
| "json_value (JNum n) = (\<bar>n\<bar> \<le> 9007199254740991)"
| "json_value (JStr s) = True"
| "json_value (JArr xs) = json_elems xs"
| "json_value (JObj kvs) = (own_order (map fst kvs) \<and> json_props kvs)"
| "json_elems [] = True"
| "json_elems (x # xs) = (json_value x \<and> json_elems xs)"
| "json_props [] = True"
| "json_props ((k, v) # kvs) = (json_value v \<and> json_props kvs)"

text \<open>
  A parser for the texts that \<open>JSON.stringify\<close> writes, to have a \<open>JSON.parse\<close> to run:
  no white space, integers only, and of the \<open>\u\<close> escapes those below 128. The first
  argument of \<open>parse_value\<close> bounds the depth of the recursion; the length of the text is
  enough.
\<close>

definition parse_number :: "string \<Rightarrow> (jsval \<times> string) option" where
  "parse_number s =
     (let neg = (take 1 s = ''-'');
          t = (if neg then drop 1 s else s);
          ds = takeWhile is_digit t
      in if ds = [] then None
         else Some (JNum (if neg then - int (digits_nat ds) else int (digits_nat ds)),
                    dropWhile is_digit t))"

definition hex_val :: "char \<Rightarrow> nat option" where
  "hex_val c =
     (if is_digit c then Some (digit_val c)
      else if 97 \<le> (of_char c :: nat) \<and> (of_char c :: nat) \<le> 102 then Some (of_char c - 87)
      else None)"

definition unescape :: "char \<Rightarrow> char option" where
  "unescape e =
     (if e = CHR 0x22 then Some (CHR 0x22)
      else if e = CHR 0x5C then Some (CHR 0x5C)
      else if e = CHR ''/'' then Some (CHR ''/'')
      else if e = CHR ''b'' then Some (CHR 0x08)
      else if e = CHR ''f'' then Some (CHR 0x0C)
      else if e = CHR ''n'' then Some (CHR 0x0A)
      else if e = CHR ''r'' then Some (CHR 0x0D)
      else if e = CHR ''t'' then Some (CHR 0x09)
      else None)"

fun parse_chars :: "string \<Rightarrow> (string \<times> string) option" where
  "parse_chars [] = None"
| "parse_chars (c # cs) =
     (if c = CHR 0x22 then Some ([], cs)
      else if c = CHR 0x5C then
        (case cs of
           [] \<Rightarrow> None
         | e # es \<Rightarrow>
             if e = CHR ''u'' then
               (if take 2 es = ''00'' then
                  (case (map hex_val (take 2 (drop 2 es))) of
                     [Some a, Some b] \<Rightarrow>
                       (if a < 8 then
                          (case parse_chars (drop 4 es) of
                             None \<Rightarrow> None
                           | Some (t, rest) \<Rightarrow> Some (char_of (16 * a + b) # t, rest))
                        else None)
                   | _ \<Rightarrow> None)
                else None)
             else
               (case unescape e of
                  None \<Rightarrow> None
                | Some x \<Rightarrow>
                    (case parse_chars es of
                       None \<Rightarrow> None
                     | Some (t, rest) \<Rightarrow> Some (x # t, rest))))
      else
        (case parse_chars cs of
           None \<Rightarrow> None
         | Some (t, rest) \<Rightarrow> Some (c # t, rest)))"

fun parse_value :: "nat \<Rightarrow> string \<Rightarrow> (jsval \<times> string) option"
  and parse_elems :: "nat \<Rightarrow> string \<Rightarrow> (jsval list \<times> string) option"
  and parse_props :: "nat \<Rightarrow> string \<Rightarrow> ((string \<times> jsval) list \<times> string) option" where
  "parse_value 0 s = None"
| "parse_value (Suc n) s =
     (if take 4 s = ''null'' then Some (JNull, drop 4 s)
      else if take 4 s = ''true'' then Some (JBool True, drop 4 s)
      else if take 5 s = ''false'' then Some (JBool False, drop 5 s)
      else if take 1 s = [CHR 0x22] then
        (case parse_chars (drop 1 s) of
           None \<Rightarrow> None
         | Some (t, rest) \<Rightarrow> Some (JStr t, rest))
      else if take 2 s = ''[]'' then Some (JArr [], drop 2 s)
      else if take 1 s = ''['' then
        (case parse_elems n (drop 1 s) of
           None \<Rightarrow> None
         | Some (xs, rest) \<Rightarrow> Some (JArr xs, rest))
      else if take 2 s = ''{}'' then Some (JObj [], drop 2 s)
      else if take 1 s = ''{'' then
        (case parse_props n (drop 1 s) of
           None \<Rightarrow> None
         | Some (kvs, rest) \<Rightarrow> Some (JObj kvs, rest))
      else parse_number s)"
| "parse_elems 0 s = None"
| "parse_elems (Suc n) s =
     (case parse_value n s of
        None \<Rightarrow> None
      | Some (v, rest) \<Rightarrow>
          if take 1 rest = '','' then
            (case parse_elems n (drop 1 rest) of
               None \<Rightarrow> None
             | Some (vs, r) \<Rightarrow> Some (v # vs, r))
          else if take 1 rest = '']'' then Some ([v], drop 1 rest)
          else None)"
| "parse_props 0 s = None"
| "parse_props (Suc n) s =
     (if take 1 s = [CHR 0x22] then
        (case parse_chars (drop 1 s) of
           None \<Rightarrow> None
         | Some (k, rest) \<Rightarrow>
             if take 1 rest = '':'' then
               (case parse_value n (drop 1 rest) of
                  None \<Rightarrow> None
                | Some (v, rest') \<Rightarrow>
                    if take 1 rest' = '','' then
                      (case parse_props n (drop 1 rest') of
                         None \<Rightarrow> None
                       | Some (kvs, r) \<Rightarrow> Some ((k, v) # kvs, r))
                    else if take 1 rest' = ''}'' then Some ([(k, v)], drop 1 rest')
                    else None)
             else None)
      else None)"

definition parse_json :: "string \<Rightarrow> jsval option" where
  "parse_json s =
     (case parse_value (length s) s of
        Some (v, []) \<Rightarrow> Some v
      | _ \<Rightarrow> None)"


fun no_undef :: "jsval \<Rightarrow> bool"
  and no_undef_elems :: "jsval list \<Rightarrow> bool"
  and no_undef_props :: "(string \<times> jsval) list \<Rightarrow> bool" where
  "no_undef JUndefined = False"
| "no_undef JNull = True"
| "no_undef (JBool b) = True"
| "no_undef (JNum n) = True"
| "no_undef (JStr s) = True"
| "no_undef (JArr xs) = no_undef_elems xs"
| "no_undef (JObj kvs) = no_undef_props kvs"
| "no_undef_elems [] = True"
| "no_undef_elems (x # xs) = (no_undef x \<and> no_undef_elems xs)"
| "no_undef_props [] = True"
| "no_undef_props ((k, v) # kvs) = (no_undef v \<and> no_undef_props kvs)"

definition json_text :: "jsval \<Rightarrow> string" where
  "json_text v = (case JSON_stringify v of None \<Rightarrow> [] | Some t \<Rightarrow> t)"

definition ends_number :: "string \<Rightarrow> bool" where
  "ends_number rest = (case rest of [] \<Rightarrow> True | c # cs \<Rightarrow> \<not> is_digit c)"

definition starts_value :: "char \<Rightarrow> bool" where
  "starts_value c = (c \<in> set ''ntf[{'' \<or> c = CHR 0x22 \<or> c = CHR ''-'' \<or> is_digit c)"


section \<open>Protocol constants\<close>

definition PROTOCOL_VERSION :: int where
  "PROTOCOL_VERSION = 1"

definition PROTOCOL_MAGIC :: string where
  "PROTOCOL_MAGIC = ''ue_py''"


definition TYPE_PONG :: string where
  "TYPE_PONG = ''pong''"

definition TYPE_OPEN_CONNECTION :: string where
  "TYPE_OPEN_CONNECTION = ''open_connection''"

definition TYPE_CLOSE_CONNECTION :: string where
  "TYPE_CLOSE_CONNECTION = ''close_connection''"

definition TYPE_COMMAND :: string where
  "TYPE_COMMAND = ''command''"

definition TYPE_COMMAND_RESULT :: string where
  "TYPE_COMMAND_RESULT = ''command_result''"

definition NODE_PING_SECONDS :: int where
  "NODE_PING_SECONDS = 1000"

definition NODE_TIMEOUT_SECONDS :: int where
  "NODE_TIMEOUT_SECONDS = 5000"

definition MODE_EXEC_FILE :: string where
  "MODE_EXEC_FILE = ''ExecuteFile''"

definition MODE_EXEC_STATEMENT :: string where
  "MODE_EXEC_STATEMENT = ''ExecuteStatement''"

definition MODE_EVAL_STATEMENT :: string where
  "MODE_EVAL_STATEMENT = ''EvaluateStatement''"

section \<open>Messages: class \<open>_RemoteExecutionMessage\<close>\<close>

record message =
  msg_type :: jsval
  source :: jsval
  dest :: jsval
  data :: jsval

text \<open>The constructor; \<open>dest\<close> and \<open>data\<close> default to \<open>null\<close>. The field \<open>type_\<close> of the source is \<open>msg_type\<close> here.\<close>

definition RemoteExecutionMessage :: "jsval \<Rightarrow> jsval \<Rightarrow> jsval \<Rightarrow> jsval \<Rightarrow> message" where
  "RemoteExecutionMessage t s d p = \<lparr>msg_type = t, source = s, dest = d, data = p\<rparr>"

definition RemoteExecutionMessage2 :: "jsval \<Rightarrow> jsval \<Rightarrow> message" where
  "RemoteExecutionMessage2 t s = RemoteExecutionMessage t s JNull JNull"

text \<open>
  \<open>passes_receive_filter\<close>:
  \<^verbatim>\<open>return this.source != node_id && (!this.dest || this.dest == node_id);\<close>
\<close>

definition passes_receive_filter :: "builtins \<Rightarrow> message \<Rightarrow> string \<Rightarrow> bool" where
  "passes_receive_filter env m node_id =
     (\<not> js_eq_str env (source m) node_id \<and>
      (\<not> js_truthy (dest m) \<or> js_eq_str env (dest m) node_id))"

text \<open>
  \<open>to_json\<close>: the object literal \<open>json_obj\<close> with its four fixed properties, then
  \<open>dest\<close> and \<open>data\<close> when they are truthy, then \<open>JSON.stringify\<close>. (The two
  \<open>console.log\<close> lines for an empty type or source write a diagnostic and go on.)
\<close>

definition to_json_obj :: "message \<Rightarrow> (string \<times> jsval) list" where
  "to_json_obj m =
     [(''version'', JNum PROTOCOL_VERSION),
      (''magic'', JStr PROTOCOL_MAGIC),
      (''type'', msg_type m),
      (''source'', source m)]
     @ (if js_truthy (dest m) then [(''dest'', dest m)] else [])
     @ (if js_truthy (data m) then [(''data'', data m)] else [])"

definition to_json :: "message \<Rightarrow> string" where
  "to_json m = JSON_stringify_object (to_json_obj m)"

definition to_json_bytes :: "message \<Rightarrow> string" where
  "to_json_bytes m = to_json m"

text \<open>
  \<open>from_json\<close>: the \<open>try\<close> block either throws (the parse error, the TypeError of a
  property read on \<open>null\<close>, or one of the two mismatch errors) before it has assigned
  anything, or assigns the four fields; the \<open>catch\<close> logs; and the function ends with
  \<open>return true\<close> on both paths.
\<close>

definition from_json_try :: "builtins \<Rightarrow> string \<Rightarrow> message \<Rightarrow> error + message" where
  "from_json_try env json_str m =
     (case JSON_parse env json_str of
        None \<Rightarrow> Inl SyntaxError
      | Some json_obj \<Rightarrow>
          (case js_get json_obj ''version'' of
             Inl e \<Rightarrow> Inl e
           | Inr v \<Rightarrow>
               if \<not> js_eq_num env v PROTOCOL_VERSION
               then Inl (Error (''\"version\" is incorrect (got '' @ ToString v
                                @ '', expected '' @ show_int PROTOCOL_VERSION @ '')!''))
               else
                 (case js_get json_obj ''magic'' of
                    Inl e \<Rightarrow> Inl e
                  | Inr g \<Rightarrow>
                      if \<not> js_eq_str env g PROTOCOL_MAGIC
                      then Inl (Error (''\"magic\" is incorrect (got \"'' @ ToString g
                                       @ ''\", expected \"'' @ PROTOCOL_MAGIC @ ''\")!''))
                      else
                        (case (js_get json_obj ''type'', js_get json_obj ''source'',
                               js_get json_obj ''dest'', js_get json_obj ''data'') of
                           (Inr t, Inr s, Inr d, Inr p) \<Rightarrow>
                             Inr (m\<lparr>msg_type := t, source := s, dest := d, data := p\<rparr>)
                         | _ \<Rightarrow> Inl TypeError))))"

definition from_json :: "builtins \<Rightarrow> string \<Rightarrow> message \<Rightarrow> bool \<times> message" where
  "from_json env json_str m =
     (case from_json_try env json_str m of
        Inl e \<Rightarrow> (True, m)
      | Inr m' \<Rightarrow> (True, m'))"

definition from_json_bytes :: "builtins \<Rightarrow> string \<Rightarrow> message \<Rightarrow> bool \<times> message" where
  "from_json_bytes env json_bytes m = from_json env json_bytes m"

section \<open>Outcomes\<close>

text \<open>
  A method that changes the object it is called on and may throw: it either returns, or
  throws with the object as it was at the throw.
\<close>

datatype ('a, 's) outcome = Returned 'a 's | Thrown error 's

definition outcome_state :: "('a, 's) outcome \<Rightarrow> 's" where
  "outcome_state r = (case r of Returned x s \<Rightarrow> s | Thrown e s \<Rightarrow> s)"

section \<open>Time\<close>

text \<open>
  \<open>_time_now(now)\<close> is \<open>now ? now : new Date().getTime()\<close>. The argument is a number
  or \<open>null\<close> (\<open>None\<close>); \<open>clk\<close> is what the wall clock reads while the call runs.
\<close>

definition time_now :: "int option \<Rightarrow> int \<Rightarrow> int" where
  "time_now now clk =
     (case now of
        None \<Rightarrow> clk
      | Some t \<Rightarrow> if t \<noteq> 0 then t else clk)"

section \<open>Objects on the heap\<close>

text \<open>
  Node data is an object that the registry, the message it came from and the lists handed out
  by \<open>remote_nodes\<close> may all refer to, so objects live in a store and are named by their
  address. A value of type \<open>object\<close> is such a reference, \<open>null\<close> or \<open>undefined\<close>.
\<close>

type_synonym addr = nat

type_synonym heap = "(string \<times> jsval) list list"

datatype objref = RUndefined | RNull | RObj addr

text \<open>
  The assignment \<open>obj[k] = v\<close> on the list of an object's own properties: in place if
  \<open>k\<close> is there; else an array index goes among the array indices, in ascending order, and
  any other name at the end. The name \<open>__proto__\<close> is no property: assigning to it can
  replace the object's prototype, and leaves the own properties as they are.
\<close>

fun obj_replace :: "string \<Rightarrow> 'v \<Rightarrow> (string \<times> 'v) list \<Rightarrow> (string \<times> 'v) list" where
  "obj_replace k v [] = []"
| "obj_replace k v ((k', v') # kvs) =
     (if k' = k then (k, v) # kvs else (k', v') # obj_replace k v kvs)"

fun obj_insert_index :: "nat \<Rightarrow> string \<Rightarrow> 'v \<Rightarrow> (string \<times> 'v) list \<Rightarrow> (string \<times> 'v) list" where
  "obj_insert_index i k v [] = [(k, v)]"
| "obj_insert_index i k v ((k', v') # kvs) =
     (case array_index k' of
        None \<Rightarrow> (k, v) # (k', v') # kvs
      | Some j \<Rightarrow>
          if j < i then (k', v') # obj_insert_index i k v kvs
          else (k, v) # (k', v') # kvs)"

definition obj_set :: "string \<Rightarrow> 'v \<Rightarrow> (string \<times> 'v) list \<Rightarrow> (string \<times> 'v) list" where
  "obj_set k v kvs =
     (if k = ''__proto__'' then kvs
      else if map_of kvs k \<noteq> None then obj_replace k v kvs
      else
        (case array_index k of
           None \<Rightarrow> kvs @ [(k, v)]
         | Some i \<Rightarrow> obj_insert_index i k v kvs))"

definition heap_get :: "heap \<Rightarrow> addr \<Rightarrow> (string \<times> jsval) list" where
  "heap_get h a = (if a < length h then h ! a else [])"

definition heap_set_prop :: "heap \<Rightarrow> addr \<Rightarrow> string \<Rightarrow> jsval \<Rightarrow> heap" where
  "heap_set_prop h a k v = (if a < length h then h[a := obj_set k v (h ! a)] else h)"

text \<open>
  \<open>new Object(x)\<close>: an object is returned as it is, the same reference; \<open>null\<close> and
  \<open>undefined\<close> give a new empty object.
\<close>

definition new_Object :: "heap \<Rightarrow> objref \<Rightarrow> heap \<times> addr" where
  "new_Object h x =
     (case x of
        RObj a \<Rightarrow> (h, a)
      | _ \<Rightarrow> (h @ [[]], length h))"

section \<open>The registry: classes \<open>_RemoteExecutionNode\<close> and \<open>_RemoteExecutionBroadcastNodes\<close>\<close>

record node =
  node_data :: objref
  last_pong :: int

definition RemoteExecutionNode :: "objref \<Rightarrow> int option \<Rightarrow> int \<Rightarrow> node" where
  "RemoteExecutionNode d now clk = \<lparr>node_data = d, last_pong = time_now now clk\<rparr>"

definition should_timeout :: "node \<Rightarrow> int option \<Rightarrow> int \<Rightarrow> bool" where
  "should_timeout nd now clk =
     (last_pong nd + NODE_TIMEOUT_SECONDS < time_now now clk)"

text \<open>
  \<open>_remote_nodes\<close> is a plain object used as a dictionary from node ids to nodes: the list
  of its own properties, in the order \<open>for ... in\<close> visits them. The sweep and the getter
  below are those of a dictionary that still has the prototype it was made with.
\<close>

type_synonym broadcast_nodes = "(string \<times> node) list"

definition BroadcastNodes :: broadcast_nodes where
  "BroadcastNodes = []"

text \<open>
  \<open>update_remote_node\<close> has three ways to end. The method call
  \<open>this._remote_nodes.hasOwnProperty(node_id)\<close> looks \<open>hasOwnProperty\<close> up on the dictionary
  itself first, and throws a TypeError when a node is stored under that name. The assignment
  \<open>this._remote_nodes[node_id] = ...\<close> stores the node, except under the id \<open>__proto__\<close>:
  there it makes the node the prototype of the dictionary and stores no record. What the
  dictionary does after that is not followed here.
\<close>

datatype update_result =
    Stored broadcast_nodes
  | Reparented broadcast_nodes node
  | Threw error

definition update_remote_node ::
  "broadcast_nodes \<Rightarrow> string \<Rightarrow> objref \<Rightarrow> int option \<Rightarrow> int \<Rightarrow> update_result" where
  "update_remote_node ns node_id d now clk =
     (let now' = time_now now clk in
      if map_of ns ''hasOwnProperty'' \<noteq> None then Threw TypeError
      else if node_id = ''__proto__''
        then Reparented ns (RemoteExecutionNode d (Some now') clk)
      else Stored (obj_set node_id (RemoteExecutionNode d (Some now') clk) ns))"

text \<open>
  The template literal \<open>${node.data}\<close> of the line that logs a lost node converts the data
  to a string: \<open>null\<close> and \<open>undefined\<close> have one; an object has \<open>[object Object]\<close>,
  unless it has a property \<open>toString\<close> of its own, which is no function, and then the
  conversion throws a TypeError.
\<close>

definition data_to_string :: "heap \<Rightarrow> objref \<Rightarrow> error + string" where
  "data_to_string h d =
     (case d of
        RUndefined \<Rightarrow> Inr ''undefined''
      | RNull \<Rightarrow> Inr ''null''
      | RObj a \<Rightarrow>
          if map_of (heap_get h a) ''toString'' \<noteq> None then Inl TypeError
          else Inr ''[object Object]'')"

text \<open>
  \<open>timeout_remote_nodes\<close>: the loop visits the nodes in order; for one that should time out
  it logs the line, which may throw, and then deletes the property it is visiting. The others
  stay. A throw ends the loop with the node it was at, and those after it, still there.
\<close>

fun timeout_loop :: "heap \<Rightarrow> int \<Rightarrow> int \<Rightarrow> broadcast_nodes \<Rightarrow> (unit, broadcast_nodes) outcome" where
  "timeout_loop h now clk [] = Returned () []"
| "timeout_loop h now clk ((node_id, nd) # rest) =
     (if should_timeout nd (Some now) clk then
        (case data_to_string h (node_data nd) of
           Inl e \<Rightarrow> Thrown e ((node_id, nd) # rest)
         | Inr line \<Rightarrow> timeout_loop h now clk rest)
      else
        (case timeout_loop h now clk rest of
           Returned u ns \<Rightarrow> Returned u ((node_id, nd) # ns)
         | Thrown e ns \<Rightarrow> Thrown e ((node_id, nd) # ns)))"

definition timeout_remote_nodes ::
  "heap \<Rightarrow> broadcast_nodes \<Rightarrow> int option \<Rightarrow> int \<Rightarrow> (unit, broadcast_nodes) outcome" where
  "timeout_remote_nodes h ns now clk = timeout_loop h (time_now now clk) clk ns"

text \<open>
  The getter \<open>remote_nodes\<close>: for each node, \<open>new Object(node.data)\<close>, then the assignment
  of \<open>node_id\<close> on the result, then the push. It returns the heap as it has left it and the
  references of the list.
\<close>

fun remote_nodes :: "heap \<Rightarrow> broadcast_nodes \<Rightarrow> heap \<times> addr list" where
  "remote_nodes h [] = (h, [])"
| "remote_nodes h ((node_id, nd) # ns) =
     (case new_Object h (node_data nd) of
        (h1, remote_node_data) \<Rightarrow>
          (case remote_nodes (heap_set_prop h1 remote_node_data ''node_id'' (JStr node_id)) ns of
             (h2, remote_nodes_list) \<Rightarrow> (h2, remote_node_data # remote_nodes_list)))"

text \<open>What the registry holds for a node id: the properties of its data object, read now.\<close>

definition stored_data :: "heap \<Rightarrow> broadcast_nodes \<Rightarrow> string \<Rightarrow> (string \<times> jsval) list option" where
  "stored_data h ns node_id =
     (case map_of ns node_id of
        None \<Rightarrow> None
      | Some nd \<Rightarrow>
          (case node_data nd of
             RObj a \<Rightarrow> Some (heap_get h a)
           | _ \<Rightarrow> None))"

section \<open>Configuration and the broadcast connection\<close>

record config =
  multicast_ttl :: int
  multicast_group_endpoint :: "string \<times> int"
  multicast_bind_address :: string
  command_endpoint :: "string \<times> int"

definition RemoteExecutionConfig :: config where
  "RemoteExecutionConfig =
     \<lparr>multicast_ttl = 0,
      multicast_group_endpoint = (''239.0.0.1'', 6766),
      multicast_bind_address = ''0.0.0.0'',
      command_endpoint = (''127.0.0.1'', 6776)\<rparr>"

text \<open>
  Of \<open>_RemoteExecutionBroadcastConnection\<close>, the fields the command connection uses. The UDP
  socket is \<open>null\<close> (\<open>None\<close>) until \<open>open()\<close>, and then holds the datagrams sent to the
  multicast group so far.
\<close>

record broadcast_connection =
  bc_config :: config
  bc_node_id :: string
  bc_broadcast_socket :: "string list option"

definition broadcast_message ::
  "broadcast_connection \<Rightarrow> message \<Rightarrow> (unit, broadcast_connection) outcome" where
  "broadcast_message bc m =
     (let d = to_json m in
      case bc_broadcast_socket bc of
        None \<Rightarrow> Thrown TypeError bc
      | Some sent \<Rightarrow> Returned () (bc\<lparr>bc_broadcast_socket := Some (sent @ [d])\<rparr>))"

definition broadcast_open_connection ::
  "broadcast_connection \<Rightarrow> string \<Rightarrow> (unit, broadcast_connection) outcome" where
  "broadcast_open_connection bc remote_node_id =
     broadcast_message bc
       (RemoteExecutionMessage (JStr TYPE_OPEN_CONNECTION) (JStr (bc_node_id bc))
          (JStr remote_node_id)
          (JObj [(''command_ip'', JStr (fst (command_endpoint (bc_config bc)))),
                 (''command_port'', JNum (snd (command_endpoint (bc_config bc))))]))"

definition broadcast_close_connection ::
  "broadcast_connection \<Rightarrow> string \<Rightarrow> (unit, broadcast_connection) outcome" where
  "broadcast_close_connection bc remote_node_id =
     broadcast_message bc
       (RemoteExecutionMessage (JStr TYPE_CLOSE_CONNECTION) (JStr (bc_node_id bc))
          (JStr remote_node_id) JNull)"

section \<open>The command connection: class \<open>_RemoteExecutionCommandConnection\<close>\<close>

text \<open>
  The listening socket is \<open>null\<close> or a server with the options it was given to listen with;
  the channel socket is \<open>null\<close> or the accepted socket, with what has been written to it.
  \<open>_result\<close> is \<open>null\<close> or a message.
\<close>

record listen_socket =
  ls_port :: int
  ls_host :: string
  ls_backlog :: nat

record command_connection =
  cc_config :: config
  cc_node_id :: string
  cc_remote_node_id :: string
  cc_command_listen_socket :: "listen_socket option"
  cc_command_channel_socket :: "string list option"
  cc_nodes :: "broadcast_nodes option"
  cc_result :: "message option"

definition RemoteExecutionCommandConnection :: "config \<Rightarrow> string \<Rightarrow> string \<Rightarrow> command_connection" where
  "RemoteExecutionCommandConnection cfg node_id remote_node_id =
     \<lparr>cc_config = cfg, cc_node_id = node_id, cc_remote_node_id = remote_node_id,
      cc_command_listen_socket = None, cc_command_channel_socket = None,
      cc_nodes = None, cc_result = None\<rparr>"

text \<open>
  \<open>_init_command_listen_socket\<close> creates the server and starts listening. The handler it
  registers for \<open>connection\<close> runs later, when a peer connects (\<open>on_connection\<close>), and the
  one that registers for \<open>data\<close> on the accepted socket later still (\<open>on_data\<close>).
\<close>

definition init_command_listen_socket :: "command_connection \<Rightarrow> command_connection" where
  "init_command_listen_socket c =
     (let host = fst (command_endpoint (cc_config c));
          port = snd (command_endpoint (cc_config c))
      in c\<lparr>cc_command_listen_socket := Some \<lparr>ls_port = port, ls_host = host, ls_backlog = 1\<rparr>\<rparr>)"

definition on_connection :: "command_connection \<Rightarrow> command_connection" where
  "on_connection c = c\<lparr>cc_command_channel_socket := Some []\<rparr>"

text \<open>
  \<open>_receive_message(data, expected_type)\<close>; a Buffer is truthy, so \<open>if (data)\<close> passes
  whenever the handler is called with one.
\<close>

definition receive_message ::
  "builtins \<Rightarrow> command_connection \<Rightarrow> string \<Rightarrow> string \<Rightarrow> error + message" where
  "receive_message env c d expected_type =
     (case from_json_bytes env d (RemoteExecutionMessage2 JNull JNull) of
        (ok, message) \<Rightarrow>
          if ok \<and> passes_receive_filter env message (cc_node_id c)
                \<and> js_eq_str env (msg_type message) expected_type
          then Inr message
          else Inl (Error ''Remote party failed to send a valid response!''))"

definition on_data :: "builtins \<Rightarrow> command_connection \<Rightarrow> string \<Rightarrow> (unit, command_connection) outcome" where
  "on_data env c d =
     (case receive_message env c d TYPE_COMMAND_RESULT of
        Inl e \<Rightarrow> Thrown e c
      | Inr message \<Rightarrow> Returned () c)"

text \<open>
  \<open>_try_accept\<close>: the loop \<open>for (let i = 0; i < 6; i++)\<close>, from \<open>i\<close> on. Each round
  broadcasts \<open>open_connection\<close> and returns if \<open>this._command_listen_socket\<close> is set; after
  the sixth it throws. A \<open>null\<close> broadcast connection makes the method call throw a TypeError.
\<close>

function try_accept_from ::
  "nat \<Rightarrow> command_connection \<Rightarrow> broadcast_connection option
     \<Rightarrow> (unit, command_connection \<times> broadcast_connection option) outcome" where
  "try_accept_from i c bco =
     (if i < 6 then
        (case bco of
           None \<Rightarrow> Thrown TypeError (c, bco)
         | Some bc \<Rightarrow>
             (case broadcast_open_connection bc (cc_remote_node_id c) of
                Thrown e bc' \<Rightarrow> Thrown e (c, Some bc')
              | Returned u bc' \<Rightarrow>
                  if cc_command_listen_socket c \<noteq> None then Returned () (c, Some bc')
                  else try_accept_from (i + 1) c (Some bc')))
      else Thrown (Error ''Remote party failed to attempt the command socket connection!'')
             (c, bco))"
  by pat_completeness auto
termination
  by (relation "measure (\<lambda>(i, c, bco). 6 - i)") auto

definition try_accept ::
  "command_connection \<Rightarrow> broadcast_connection option
     \<Rightarrow> (unit, command_connection \<times> broadcast_connection option) outcome" where
  "try_accept c bco = try_accept_from 0 c bco"

definition CommandConnection_open ::
  "command_connection \<Rightarrow> broadcast_connection option
     \<Rightarrow> (unit, command_connection \<times> broadcast_connection option) outcome" where
  "CommandConnection_open c bco =
     try_accept (init_command_listen_socket (c\<lparr>cc_nodes := Some BroadcastNodes\<rparr>)) bco"

definition send_message :: "command_connection \<Rightarrow> message \<Rightarrow> (unit, command_connection) outcome" where
  "send_message c m =
     (let d = to_json m in
      case cc_command_channel_socket c of
        None \<Rightarrow> Thrown TypeError c
      | Some written \<Rightarrow> Returned () (c\<lparr>cc_command_channel_socket := Some (written @ [d])\<rparr>))"

text \<open>
  The loop of \<open>run_command\<close>, \<open>while (true) { if (this._result) { ... break; } }\<close>: nothing
  else runs while it spins, so every round reads the same \<open>_result\<close>. \<open>None\<close> is the loop
  that never ends.
\<close>

partial_function (option) await_result ::
  "command_connection \<Rightarrow> (message \<times> command_connection) option" where
  "await_result c =
     (case cc_result c of
        Some result \<Rightarrow> Some (result, c\<lparr>cc_result := None\<rparr>)
      | None \<Rightarrow> await_result c)"

definition CommandConnection_run_command ::
  "command_connection \<Rightarrow> string \<Rightarrow> bool \<Rightarrow> string \<Rightarrow> (jsval, command_connection) outcome option" where
  "CommandConnection_run_command c command unattended exec_mode =
     (case send_message c
             (RemoteExecutionMessage (JStr TYPE_COMMAND) (JStr (cc_node_id c))
                (JStr (cc_remote_node_id c))
                (JObj [(''command'', JStr command),
                       (''unattended'', JBool unattended),
                       (''exec_mode'', JStr exec_mode)])) of
        Thrown e c' \<Rightarrow> Some (Thrown e c')
      | Returned u c' \<Rightarrow>
          (case await_result c' of
             None \<Rightarrow> None
           | Some (result, c'') \<Rightarrow> Some (Returned (data result) c'')))"

text \<open>\<open>close\<close>: the notice to the remote party first, then the two sockets.\<close>

definition CommandConnection_close ::
  "command_connection \<Rightarrow> broadcast_connection option
     \<Rightarrow> (unit, command_connection \<times> broadcast_connection option) outcome" where
  "CommandConnection_close c bco =
     (case bco of
        None \<Rightarrow> Thrown TypeError (c, bco)
      | Some bc \<Rightarrow>
          (case broadcast_close_connection bc (cc_remote_node_id c) of
             Thrown e bc' \<Rightarrow> Thrown e (c, Some bc')
           | Returned u bc' \<Rightarrow>
               Returned ()
                 (c\<lparr>cc_command_channel_socket := None, cc_command_listen_socket := None\<rparr>,
                  Some bc')))"

text \<open>
  The states a command connection can be in: it is made by the constructor, and changed by
  its methods and by the two handlers, however each of them ends.
\<close>

inductive reachable :: "command_connection \<Rightarrow> bool" where
  constructed: "reachable (RemoteExecutionCommandConnection cfg node_id remote_node_id)"
| opened: "reachable c \<Longrightarrow> reachable (fst (outcome_state (CommandConnection_open c bco)))"
| closed: "reachable c \<Longrightarrow> reachable (fst (outcome_state (CommandConnection_close c bco)))"
| accepted: "reachable c \<Longrightarrow> reachable (on_connection c)"
| received: "reachable c \<Longrightarrow> reachable (outcome_state (on_data env c d))"
| ran: "reachable c \<Longrightarrow> CommandConnection_run_command c command unattended exec_mode = Some r
        \<Longrightarrow> reachable (outcome_state r)"

section \<open>The session: class \<open>RemoteExecution\<close>\<close>

record remote_execution =
  re_config :: config
  re_broadcast_connection :: "broadcast_connection option"
  re_command_connection :: "command_connection option"
  re_node_id :: string

text \<open>
  \<open>run_command\<close> of the session: the command connection's \<open>run_command\<close>, then
  \<open>if (raise_on_failure && !data['success']) throw new Error(...)\<close>, then \<open>return data\<close>.
\<close>

definition RemoteExecution_run_command ::
  "remote_execution \<Rightarrow> string \<Rightarrow> bool \<Rightarrow> string \<Rightarrow> bool
     \<Rightarrow> (jsval, remote_execution) outcome option" where
  "RemoteExecution_run_command s command unattended exec_mode raise_on_failure =
     (case re_command_connection s of
        None \<Rightarrow> Some (Thrown TypeError s)
      | Some c \<Rightarrow>
          (case CommandConnection_run_command c command unattended exec_mode of
             None \<Rightarrow> None
           | Some (Thrown e c') \<Rightarrow> Some (Thrown e (s\<lparr>re_command_connection := Some c'\<rparr>))
           | Some (Returned d c') \<Rightarrow>
               (let s' = s\<lparr>re_command_connection := Some c'\<rparr> in
                if \<not> raise_on_failure then Some (Returned d s')
                else
                  (case js_get d ''success'' of
                     Inl e \<Rightarrow> Some (Thrown e s')
                   | Inr ok \<Rightarrow>
                       if js_truthy ok then Some (Returned d s')
                       else
                         (case js_get d ''result'' of
                            Inl e \<Rightarrow> Some (Thrown e s')
                          | Inr r \<Rightarrow>
                              Some (Thrown (Error (''Remote Python Command failed! ''
                                                   @ ToString r @ ''.'')) s'))))))"

section \<open>A runtime to evaluate with\<close>

text \<open>
  Concrete inputs need a concrete runtime. This one parses the texts of a table; it reads the
  empty string as 0 and a string of decimal digits as its number, and takes every other
  string for no number (none of the inputs below compares a number with such a string).
\<close>

definition digits_value :: "string \<Rightarrow> int option" where
  "digits_value s =
     (if list_all (\<lambda>c. c \<in> set ''0123456789'') s
      then Some (foldl (\<lambda>n c. 10 * n + (of_char c - 48)) 0 s)
      else None)"

definition table_runtime :: "(string \<times> jsval) list \<Rightarrow> builtins" where
  "table_runtime tbl = \<lparr>JSON_parse = map_of tbl, StringToNumber = digits_value\<rparr>"

text \<open>And this one parses with the parser above.\<close>

definition parsing_runtime :: builtins where
  "parsing_runtime = \<lparr>JSON_parse = parse_json, StringToNumber = digits_value\<rparr>"

section \<open>Well-formed messages\<close>

text \<open>
  A message is well formed when its type and source are strings, its destination is absent
  (\<open>null\<close> or \<open>undefined\<close>) or a non-empty node id, and its payload is absent or an object
  that is a JSON value.
\<close>

fun absent :: "jsval \<Rightarrow> bool" where
  "absent JUndefined = True"
| "absent JNull = True"
| "absent v = False"


fun string_or_absent :: "jsval \<Rightarrow> bool" where
  "string_or_absent (JStr s) = True"
| "string_or_absent v = absent v"



text \<open>
  A message can be encoded when what \<open>to_json\<close> hands to \<open>JSON.stringify\<close> is made of
  JSON values, an \<open>undefined\<close> type or source apart.
\<close>

definition encodable :: "message \<Rightarrow> bool" where
  "encodable m =
     ((msg_type m = JUndefined \<or> json_value (msg_type m))
      \<and> (source m = JUndefined \<or> json_value (source m))
      \<and> (if js_truthy (dest m) then json_value (dest m) else True)
      \<and> (if js_truthy (data m) then json_value (data m) else True))"

text \<open>The properties that reach the text: those of \<open>json_obj\<close> whose value is not \<open>undefined\<close>.\<close>

definition envelope :: "message \<Rightarrow> (string \<times> jsval) list" where
  "envelope m =
     [(''version'', JNum PROTOCOL_VERSION), (''magic'', JStr PROTOCOL_MAGIC)]
     @ (if msg_type m = JUndefined then [] else [(''type'', msg_type m)])
     @ (if source m = JUndefined then [] else [(''source'', source m)])
     @ (if js_truthy (dest m) then [(''dest'', dest m)] else [])
     @ (if js_truthy (data m) then [(''data'', data m)] else [])"


section \<open>Example inputs\<close>

definition fresh_message :: message where
  "fresh_message = RemoteExecutionMessage2 JNull JNull"

definition open_n1 :: message where
  "open_n1 =
     RemoteExecutionMessage (JStr TYPE_OPEN_CONNECTION) (JStr ''abc'') (JStr ''n1'')
       (JObj [(''command_ip'', JStr ''127.0.0.1''), (''command_port'', JNum 6776)])"

definition open_n1_text :: string where
  "open_n1_text =
     ''{\"version\":1,\"magic\":\"ue_py\",\"type\":\"open_connection\",\"source\":\"abc\",\"dest\":\"n1\",\"data\":{\"command_ip\":\"127.0.0.1\",\"command_port\":6776}}''"

definition wrong_version_text :: string where
  "wrong_version_text =
     ''{\"version\":2,\"magic\":\"ue_py\",\"type\":\"pong\",\"source\":\"n1\"}''"

definition wrong_version_obj :: jsval where
  "wrong_version_obj =
     JObj [(''version'', JNum 2), (''magic'', JStr ''ue_py''),
           (''type'', JStr ''pong''), (''source'', JStr ''n1'')]"

definition wrong_magic_text :: string where
  "wrong_magic_text =
     ''{\"version\":1,\"magic\":\"ue_js\",\"type\":\"pong\",\"source\":\"n1\"}''"

definition wrong_magic_obj :: jsval where
  "wrong_magic_obj =
     JObj [(''version'', JNum 1), (''magic'', JStr ''ue_js''),
           (''type'', JStr ''pong''), (''source'', JStr ''n1'')]"

definition payload_text :: string where
  "payload_text =
     ''{\"version\":1,\"magic\":\"ue_py\",\"type\":\"pong\",\"source\":\"n1\",\"payload\":{\"machine\":\"WS1\"}}''"

definition payload_obj :: jsval where
  "payload_obj =
     JObj [(''version'', JNum 1), (''magic'', JStr ''ue_py''),
           (''type'', JStr ''pong''), (''source'', JStr ''n1''),
           (''payload'', JObj [(''machine'', JStr ''WS1'')])]"

definition pong_text :: string where
  "pong_text =
     ''{\"version\":1,\"magic\":\"ue_py\",\"type\":\"pong\",\"source\":\"n1\",\"data\":{\"machine\":\"WS1\"}}''"

definition pong_obj :: jsval where
  "pong_obj =
     JObj [(''version'', JNum 1), (''magic'', JStr ''ue_py''),
           (''type'', JStr ''pong''), (''source'', JStr ''n1''),
           (''data'', JObj [(''machine'', JStr ''WS1'')])]"

definition example_runtime :: builtins where
  "example_runtime =
     table_runtime
       [(open_n1_text, JObj (to_json_obj open_n1)),
        (wrong_version_text, wrong_version_obj),
        (wrong_magic_text, wrong_magic_obj),
        (payload_text, payload_obj),
        (pong_text, pong_obj)]"

definition to_nobody :: message where
  "to_nobody = RemoteExecutionMessage (JStr TYPE_PONG) (JStr ''n1'') (JStr []) JNull"

definition clock_2026 :: int where
  "clock_2026 = 1762128000000"

definition ws1_heap :: heap where
  "ws1_heap = [[(''machine'', JStr ''WS1'')]]"

definition n1_nodes :: broadcast_nodes where
  "n1_nodes = [(''n1'', \<lparr>node_data = RObj 0, last_pong = 1000\<rparr>)]"

definition started_broadcast :: broadcast_connection where
  "started_broadcast =
     \<lparr>bc_config = RemoteExecutionConfig, bc_node_id = ''abc'', bc_broadcast_socket = Some []\<rparr>"

definition fresh_connection :: command_connection where
  "fresh_connection = RemoteExecutionCommandConnection RemoteExecutionConfig ''abc'' ''n1''"

definition listening :: command_connection where
  "listening =
     fresh_connection
       \<lparr>cc_command_listen_socket :=
          Some \<lparr>ls_port = 6776, ls_host = ''127.0.0.1'', ls_backlog = 1\<rparr>,
        cc_nodes := Some []\<rparr>"

definition result_text :: string where
  "result_text =
     ''{\"version\":1,\"magic\":\"ue_py\",\"type\":\"command_result\",\"source\":\"n1\",\"dest\":\"abc\",\"data\":{\"success\":true,\"result\":\"1\"}}''"

definition result_obj :: jsval where
  "result_obj =
     JObj [(''version'', JNum 1), (''magic'', JStr ''ue_py''),
           (''type'', JStr ''command_result''), (''source'', JStr ''n1''),
           (''dest'', JStr ''abc''),
           (''data'', JObj [(''success'', JBool True), (''result'', JStr ''1'')])]"

definition result_runtime :: builtins where
  "result_runtime = table_runtime [(result_text, result_obj)]"

definition connected :: command_connection where
  "connected = on_connection listening"

definition print_1_text :: string where
  "print_1_text =
     ''{\"version\":1,\"magic\":\"ue_py\",\"type\":\"command\",\"source\":\"abc\",\"dest\":\"n1\",\"data\":{\"command\":\"print(1)\",\"unattended\":true,\"exec_mode\":\"EvaluateStatement\"}}''"


definition connected_session :: remote_execution where
  "connected_session =
     \<lparr>re_config = RemoteExecutionConfig,
      re_broadcast_connection = Some started_broadcast,
      re_command_connection = Some connected,
      re_node_id = ''abc''\<rparr>"

section \<open>Reading back what JSON.stringify writes\<close>

lemma digit_table:
  "list_all (\<lambda>d. is_digit (''0123456789'' ! d) \<and> digit_val (''0123456789'' ! d) = d) [0..<10]"
  by code_simp

lemma digit_chars:
  "d < 10 \<Longrightarrow> is_digit (''0123456789'' ! d) \<and> digit_val (''0123456789'' ! d) = d"
proof -
  assume "d < 10"
  moreover have "\<forall>d \<in> set [0..<10].
      is_digit (''0123456789'' ! d) \<and> digit_val (''0123456789'' ! d) = d"
    using digit_table by (simp only: list_all_iff)
  ultimately show ?thesis
    by simp
qed

lemma show_nat_digits: "list_all is_digit (show_nat n) \<and> show_nat n \<noteq> []"
proof (induction n rule: show_nat.induct)
  case (1 n)
  show ?case
  proof (cases "n < 10")
    case True
    then show ?thesis
      by (subst show_nat.simps, subst (2) show_nat.simps) (simp add: digit_chars)
  next
    case False
    then show ?thesis
      using "1" digit_chars [of "n mod 10"]
      by (subst show_nat.simps, subst (2) show_nat.simps) simp
  qed
qed

lemma digits_nat_snoc: "digits_nat (xs @ [c]) = 10 * digits_nat xs + digit_val c"
  by (simp add: digits_nat_def)

lemma digits_nat_show_nat: "digits_nat (show_nat n) = n"
proof (induction n rule: show_nat.induct)
  case (1 n)
  show ?case
  proof (cases "n < 10")
    case True
    then show ?thesis
      by (subst show_nat.simps) (simp add: digits_nat_def digit_chars)
  next
    case False
    then show ?thesis
      using "1" digit_chars [of "n mod 10"]
      by (subst show_nat.simps) (simp add: digits_nat_snoc)
  qed
qed

lemma takeWhile_digits:
  assumes "list_all is_digit ds" and "ends_number rest"
  shows "takeWhile is_digit (ds @ rest) = ds" and "dropWhile is_digit (ds @ rest) = rest"
  using assms
  by (induction ds) (auto simp: ends_number_def split: list.splits)

lemma parse_number_show_int:
  assumes "ends_number rest"
  shows "parse_number (show_int n @ rest) = Some (JNum n, rest)"
proof -
  obtain d ds where ds: "show_nat (nat \<bar>n\<bar>) = d # ds"
    using show_nat_digits [of "nat \<bar>n\<bar>"] by (cases "show_nat (nat \<bar>n\<bar>)") auto
  have dig: "list_all is_digit (d # ds)"
    using show_nat_digits [of "nat \<bar>n\<bar>"] ds by simp
  then have d: "d \<noteq> CHR ''-''"
    by (auto simp: is_digit_def)
  have val: "digits_nat (d # ds) = nat \<bar>n\<bar>"
    using digits_nat_show_nat [of "nat \<bar>n\<bar>"] ds by simp
  show ?thesis
  proof (cases "n < 0")
    case True
    then have "show_int n = CHR ''-'' # d # ds"
      using ds by (simp add: show_int_def abs_if)
    then show ?thesis
      using takeWhile_digits [OF dig assms] val True
      by (simp add: parse_number_def Let_def)
  next
    case False
    then have "show_int n = d # ds"
      using ds by (simp add: show_int_def abs_if)
    then show ?thesis
      using takeWhile_digits [OF dig assms] val False d
      by (simp add: parse_number_def Let_def)
  qed
qed


lemma hex_val_table: "list_all (\<lambda>j. hex_val (hex_digit j) = Some j) [0..<16]"
  by code_simp

lemma hex_val_digit: "hex_val (hex_digit k) = Some (k mod 16)"
proof -
  have "\<forall>j \<in> set [0..<16]. hex_val (hex_digit j) = Some j"
    using hex_val_table by (simp only: list_all_iff)
  then have "hex_val (hex_digit (k mod 16)) = Some (k mod 16)"
    by simp
  then show ?thesis
    by (simp add: hex_digit_def)
qed

lemma parse_chars_quote_char:
  "parse_chars (quote_char c @ t) =
     (case parse_chars t of None \<Rightarrow> None | Some (u, rest) \<Rightarrow> Some (c # u, rest))"
proof (cases "c \<in> {CHR 0x22, CHR 0x5C, CHR 0x08, CHR 0x0C, CHR 0x0A, CHR 0x0D, CHR 0x09}")
  case True
  then show ?thesis
    by (auto simp: quote_char_def unescape_def split: option.splits)
next
  case False
  show ?thesis
  proof (cases "(of_char c :: nat) < 32")
    case True
    have q: "quote_char c = [CHR 0x5C, CHR ''u'', CHR ''0'', CHR ''0'',
              hex_digit (of_char c div 16), hex_digit (of_char c)]"
      using False True by (simp add: quote_char_def)
    have a: "(of_char c :: nat) div 16 mod 16 = of_char c div 16" "(of_char c :: nat) div 16 < 8"
      using True by auto
    have "char_of (16 * ((of_char c :: nat) div 16) + of_char c mod 16) = c"
      by simp
    then show ?thesis
      using a by (simp add: q hex_val_digit split: option.splits)
  next
    case big: False
    then have "quote_char c = [c]"
      using False by (simp add: quote_char_def)
    then show ?thesis
      using False by (simp split: option.splits)
  qed
qed

lemma parse_chars_quoted:
  "parse_chars (concat (map quote_char s) @ CHR 0x22 # rest) = Some (s, rest)"
  by (induction s) (simp_all add: parse_chars_quote_char del: parse_chars.simps, simp)


lemma stringify_None: "JSON_stringify v = None \<Longrightarrow> v = JUndefined"
  by (cases v) simp_all

lemma stringify_text: "no_undef v \<Longrightarrow> JSON_stringify v = Some (json_text v)"
  by (cases "JSON_stringify v") (auto simp: json_text_def dest: stringify_None)

lemma stringify_elems_text:
  "no_undef_elems xs \<Longrightarrow> stringify_elems xs = map json_text xs"
  by (induction xs) (simp_all add: stringify_text)

lemma stringify_props_text:
  "no_undef_props kvs \<Longrightarrow>
   stringify_props kvs = map (\<lambda>(k, v). quote k @ '':'' @ json_text v) kvs"
  by (induction kvs) (auto simp: stringify_text)

lemma json_text_simps:
  "json_text JNull = ''null''"
  "json_text (JBool b) = (if b then ''true'' else ''false'')"
  "json_text (JNum n) = show_int n"
  "json_text (JStr s) = quote s"
  "no_undef_elems xs \<Longrightarrow>
     json_text (JArr xs) = ''['' @ join_with '','' (map json_text xs) @ '']''"
  "no_undef_props kvs \<Longrightarrow>
     json_text (JObj kvs) =
       ''{'' @ join_with '','' (map (\<lambda>(k, v). quote k @ '':'' @ json_text v) kvs) @ ''}''"
  by (simp_all add: json_text_def stringify_elems_text stringify_props_text)

lemma show_int_start:
  "\<exists>c cs. show_int n = c # cs \<and> (is_digit c \<or> c = CHR ''-'')"
  using show_nat_digits [of "nat n"] show_nat_digits [of "nat (- n)"]
  by (cases "show_nat (nat n)"; cases "show_nat (nat (- n))") (auto simp: show_int_def)

lemma json_text_start:
  "no_undef v \<Longrightarrow> \<exists>c cs. json_text v = c # cs \<and> starts_value c"
proof (cases v)
  case (JNum n)
  then show ?thesis
    using show_int_start [of n] by (auto simp: json_text_simps starts_value_def)
next
  case (JArr xs)
  assume "no_undef v"
  with JArr show ?thesis by (simp add: json_text_simps starts_value_def)
next
  case (JObj kvs)
  assume "no_undef v"
  with JObj show ?thesis by (simp add: json_text_simps starts_value_def)
qed (auto simp: json_text_simps starts_value_def quote_def)

lemma digit_not_opening:
  assumes "is_digit c \<or> c = CHR ''-''"
  shows "c \<noteq> CHR ''n''" "c \<noteq> CHR ''t''" "c \<noteq> CHR ''f''" "c \<noteq> CHR 0x22"
    "c \<noteq> CHR ''[''" "c \<noteq> CHR ''{''"
  using assms by (auto simp: is_digit_def)

lemma parse_value_number:
  assumes "is_digit c \<or> c = CHR ''-''"
  shows "parse_value (Suc n) (c # cs) = parse_number (c # cs)"
  using digit_not_opening [OF assms] by simp


lemma join_with_Cons:
  "join_with sep (t # ts) = t @ (if ts = [] then [] else sep @ join_with sep ts)"
  by (cases ts) simp_all

lemma starts_value_not_closing: "starts_value c \<Longrightarrow> c \<noteq> CHR '']''"
  by (auto simp: starts_value_def is_digit_def)

lemma ends_number_simps [simp]:
  "ends_number []" "ends_number (CHR '','' # t)" "ends_number (CHR '']'' # t)"
  "ends_number (CHR ''}'' # t)"
  by (simp_all add: ends_number_def is_digit_def)

lemma parse_text:
  "no_undef v \<Longrightarrow> length (json_text v) \<le> m \<Longrightarrow> ends_number rest \<Longrightarrow>
     parse_value m (json_text v @ rest) = Some (v, rest)"
  "no_undef_elems xs \<Longrightarrow> xs \<noteq> [] \<Longrightarrow>
     length (join_with '','' (map json_text xs)) < m \<Longrightarrow>
     parse_elems m (join_with '','' (map json_text xs) @ CHR '']'' # rest) = Some (xs, rest)"
  "no_undef_props kvs \<Longrightarrow> kvs \<noteq> [] \<Longrightarrow>
     length (join_with '','' (map (\<lambda>(k, v). quote k @ '':'' @ json_text v) kvs)) < m \<Longrightarrow>
     parse_props m (join_with '','' (map (\<lambda>(k, v). quote k @ '':'' @ json_text v) kvs)
                    @ CHR ''}'' # rest) = Some (kvs, rest)"
proof (induction v and xs and kvs arbitrary: m rest and m rest and m rest
    rule: no_undef_no_undef_elems_no_undef_props.induct)
  case 1
  then show ?case by simp
next
  case 2
  then obtain n where "m = Suc n" by (cases m) (simp_all add: json_text_simps)
  then show ?case by (simp add: json_text_simps)
next
  case (3 b)
  then obtain n where "m = Suc n" by (cases m) (simp_all add: json_text_simps split: if_splits)
  then show ?case by (simp add: json_text_simps)
next
  case (4 n)
  obtain c cs where c: "show_int n = c # cs" "is_digit c \<or> c = CHR ''-''"
    using show_int_start by blast
  with "4.prems" obtain k where m: "m = Suc k" by (cases m) (simp_all add: json_text_simps)
  have t: "json_text (JNum n) @ rest = c # (cs @ rest)"
    using c by (simp add: json_text_simps)
  have "parse_value m (json_text (JNum n) @ rest) = parse_number (c # (cs @ rest))"
    unfolding t m by (rule parse_value_number [OF c(2)])
  also have "c # (cs @ rest) = show_int n @ rest"
    using c by simp
  finally show ?case
    using "4.prems" by (simp only: parse_number_show_int)
next
  case (5 s)
  then obtain n where "m = Suc n" by (cases m) (simp_all add: json_text_simps quote_def)
  then show ?case
    by (simp add: json_text_simps quote_def parse_chars_quoted)
next
  case (6 xs)
  from "6.prems" have nu: "no_undef_elems xs" by simp
  from "6.prems" nu obtain n where m: "m = Suc n"
    and len: "length (join_with '','' (map json_text xs)) < n"
    by (cases m) (simp_all add: json_text_simps)
  show ?case
  proof (cases xs)
    case Nil
    then show ?thesis using m by (simp add: json_text_simps)
  next
    case (Cons x ys)
    with nu have "no_undef x" by simp
    then obtain c cs where c: "json_text x = c # cs" "starts_value c"
      using json_text_start by blast
    have ne: "c \<noteq> CHR '']''"
      using c(2) by (rule starts_value_not_closing)
    have "parse_elems n (join_with '','' (map json_text xs) @ CHR '']'' # rest) = Some (xs, rest)"
      using "6.IH" [OF nu _ len] Cons by simp
    then show ?thesis
      using m nu ne c Cons by (simp add: json_text_simps join_with_Cons)
  qed
next
  case (7 kvs)
  from "7.prems" have nu: "no_undef_props kvs" by simp
  from "7.prems" nu obtain n where m: "m = Suc n"
    and len: "length (join_with '','' (map (\<lambda>(k, v). quote k @ '':'' @ json_text v) kvs)) < n"
    by (cases m) (simp_all add: json_text_simps)
  show ?case
  proof (cases kvs)
    case Nil
    then show ?thesis using m by (simp add: json_text_simps)
  next
    case (Cons p ps)
    have "parse_props n (join_with '','' (map (\<lambda>(k, v). quote k @ '':'' @ json_text v) kvs)
            @ CHR ''}'' # rest) = Some (kvs, rest)"
      using "7.IH" [OF nu _ len] Cons by simp
    then show ?thesis
      using m nu Cons by (cases p) (simp add: json_text_simps join_with_Cons quote_def)
  qed
next
  case 8
  then show ?case by simp
next
  case (9 x xs)
  from "9.prems" have nx: "no_undef x" and nxs: "no_undef_elems xs" by simp_all
  from "9.prems" obtain n where m: "m = Suc n" by (cases m) simp_all
  show ?case
  proof (cases xs)
    case Nil
    with "9.prems" m have "length (json_text x) \<le> n" by simp
    from "9.IH"(1) [OF nx this, of "CHR '']'' # rest"]
    show ?thesis using m Nil by simp
  next
    case (Cons y ys)
    with "9.prems" m have l1: "length (json_text x) \<le> n"
      and l2: "length (join_with '','' (map json_text xs)) < n"
      by (simp_all add: join_with_Cons)
    from "9.IH"(1) [OF nx l1, of "CHR '','' # join_with '','' (map json_text xs) @ CHR '']'' # rest"]
    have "parse_value n (json_text x @ CHR '','' # join_with '','' (map json_text xs) @ CHR '']'' # rest)
        = Some (x, CHR '','' # join_with '','' (map json_text xs) @ CHR '']'' # rest)"
      by simp
    moreover have "parse_elems n (join_with '','' (map json_text xs) @ CHR '']'' # rest) = Some (xs, rest)"
      using "9.IH"(2) [OF nxs _ l2] Cons by simp
    ultimately show ?thesis
      using m Cons by (simp add: join_with_Cons)
  qed
next
  case 10
  then show ?case by simp
next
  case (11 k v kvs)
  from "11.prems" have nv: "no_undef v" and nkvs: "no_undef_props kvs" by simp_all
  from "11.prems" obtain n where m: "m = Suc n" by (cases m) simp_all
  let ?f = "\<lambda>(k, v). quote k @ '':'' @ json_text v"
  have key: "parse_chars (concat (map quote_char k) @ CHR 0x22 # t) = Some (k, t)" for t
    by (rule parse_chars_quoted)
  show ?case
  proof (cases kvs)
    case Nil
    with "11.prems" m have "length (json_text v) \<le> n" by simp
    from "11.IH"(1) [OF nv this, of "CHR ''}'' # rest"]
    show ?thesis using m Nil key by (simp add: quote_def)
  next
    case (Cons p ps)
    with "11.prems" m have l1: "length (json_text v) \<le> n"
      and l2: "length (join_with '','' (map ?f kvs)) < n"
      by (simp_all add: join_with_Cons)
    from "11.IH"(1) [OF nv l1, of "CHR '','' # join_with '','' (map ?f kvs) @ CHR ''}'' # rest"]
    have "parse_value n (json_text v @ CHR '','' # join_with '','' (map ?f kvs) @ CHR ''}'' # rest)
        = Some (v, CHR '','' # join_with '','' (map ?f kvs) @ CHR ''}'' # rest)"
      by simp
    moreover have "parse_props n (join_with '','' (map ?f kvs) @ CHR ''}'' # rest) = Some (kvs, rest)"
      using "11.IH"(2) [OF nkvs _ l2] Cons by simp
    ultimately show ?thesis
      using m Cons key by (simp add: join_with_Cons quote_def)
  qed
qed

lemma parse_json_text: "no_undef v \<Longrightarrow> parse_json (json_text v) = Some v"
  using parse_text(1) [of v "length (json_text v)" "[]"] by (simp add: parse_json_def)

lemma json_value_no_undef:
  "json_value v \<Longrightarrow> no_undef v"
  "json_elems xs \<Longrightarrow> no_undef_elems xs"
  "json_props kvs \<Longrightarrow> no_undef_props kvs"
  by (induction v and xs and kvs rule: json_value_json_elems_json_props.induct) simp_all

text \<open>The parser reads every JSON value back from its text.\<close>

lemma parsing_runtime_reads_back:
  "json_value v \<Longrightarrow> JSON_parse parsing_runtime (json_text v) = Some v"
  by (simp add: parsing_runtime_def parse_json_text json_value_no_undef)

section \<open>The message codec\<close>

lemma json_text_object:
  "json_text (JObj kvs) = JSON_stringify_object kvs"
  by (simp add: json_text_def JSON_stringify_object_def)

lemma stringify_props_envelope: "stringify_props (to_json_obj m) = stringify_props (envelope m)"
  by (cases "msg_type m = JUndefined"; cases "source m = JUndefined")
     (simp_all add: to_json_obj_def envelope_def split: option.splits)

lemma to_json_envelope: "to_json m = json_text (JObj (envelope m))"
  by (simp add: to_json_def json_text_object JSON_stringify_object_def stringify_props_envelope)

lemma envelope_names:
  "array_index ''version'' = None" "array_index ''magic'' = None" "array_index ''type'' = None"
  "array_index ''source'' = None" "array_index ''dest'' = None" "array_index ''data'' = None"
  by (simp_all add: array_index_def is_digit_def)

lemma json_props_append: "json_props (xs @ ys) = (json_props xs \<and> json_props ys)"
  by (induction xs) auto

lemma envelope_order: "own_order (map fst (envelope m))"
  by (simp add: own_order_def envelope_def envelope_names)

lemma envelope_json:
  assumes "encodable m"
  shows "json_value (JObj (envelope m))"
proof -
  have "json_props (envelope m)"
    using assms
    by (auto simp: encodable_def envelope_def json_props_append PROTOCOL_VERSION_def)
  then show ?thesis
    by (simp add: envelope_order)
qed



text \<open>
  In a runtime whose \<open>JSON.parse\<close> reads JSON values back from their text, the text of a
  message parses to its envelope, and decoding it assigns the four fields from there.
\<close>

lemma parse_to_json:
  assumes "\<And>v. json_value v \<Longrightarrow> JSON_parse env (json_text v) = Some v" and "encodable m"
  shows "JSON_parse env (to_json m) = Some (JObj (envelope m))"
  unfolding to_json_envelope by (rule assms(1)) (rule envelope_json [OF assms(2)])





lemma to_json_open_n1: "to_json open_n1 = open_n1_text"
  by (simp add: to_json_def open_n1_def open_n1_text_def RemoteExecutionMessage_def
        to_json_obj_def JSON_stringify_object_def quote_def quote_char_def show_int_def
        PROTOCOL_VERSION_def PROTOCOL_MAGIC_def TYPE_OPEN_CONNECTION_def)




text \<open>Whatever the input, \<open>from_json\<close> returns true.\<close>

lemma from_json_returns_true: "fst (from_json env json_str m) = True"
  by (simp add: from_json_def split: sum.splits)

lemma from_json_failure_keeps_message:
  "from_json_try env json_str m = Inl e \<Longrightarrow> from_json env json_str m = (True, m)"
  by (simp add: from_json_def)

lemma parse_wrong_version: "JSON_parse example_runtime wrong_version_text = Some wrong_version_obj"
  by (simp add: example_runtime_def table_runtime_def open_n1_text_def wrong_version_text_def)

lemma parse_wrong_magic: "JSON_parse example_runtime wrong_magic_text = Some wrong_magic_obj"
  by (simp add: example_runtime_def table_runtime_def open_n1_text_def wrong_version_text_def wrong_magic_text_def)

lemma parse_payload: "JSON_parse example_runtime payload_text = Some payload_obj"
  by (simp add: example_runtime_def table_runtime_def open_n1_text_def wrong_version_text_def wrong_magic_text_def payload_text_def)

lemma parse_pong: "JSON_parse example_runtime pong_text = Some pong_obj"
  by (simp add: example_runtime_def table_runtime_def open_n1_text_def wrong_version_text_def wrong_magic_text_def payload_text_def pong_text_def)

lemma parse_not_json: "JSON_parse example_runtime ''not json'' = None"
  by (simp add: example_runtime_def table_runtime_def open_n1_text_def wrong_version_text_def wrong_magic_text_def payload_text_def pong_text_def)

text \<open>
  C2. \<open>from_json\<close> is to tell its caller whether the message could be parsed (its
  comment: true if it could, false otherwise). On a text that is no JSON, on a wrong version
  and on a wrong magic the \<open>try\<close> block throws the matching error, and \<open>from_json\<close> still
  returns true, with the message as it was before.
\<close>

theorem from_json_true_on_rejected_input:
  "from_json_try example_runtime ''not json'' fresh_message = Inl SyntaxError
   \<and> from_json example_runtime ''not json'' fresh_message = (True, fresh_message)
   \<and> from_json_try example_runtime wrong_version_text fresh_message
       = Inl (Error ''\"version\" is incorrect (got 2, expected 1)!'')
   \<and> from_json example_runtime wrong_version_text fresh_message = (True, fresh_message)
   \<and> from_json_try example_runtime wrong_magic_text fresh_message
       = Inl (Error ''\"magic\" is incorrect (got \"ue_js\", expected \"ue_py\")!'')
   \<and> from_json example_runtime wrong_magic_text fresh_message = (True, fresh_message)"
  by (simp add: from_json_def from_json_try_def parse_not_json parse_wrong_version
        parse_wrong_magic wrong_version_obj_def wrong_magic_obj_def PROTOCOL_VERSION_def
        PROTOCOL_MAGIC_def show_int_def)

text \<open>
  C5 as stated fails: the envelope of a message with a payload has no key \<open>payload\<close>, and a
  payload sent under the key \<open>payload\<close> is not read.
\<close>

theorem payload_key_counterexample:
  "''payload'' \<notin> set (map fst (to_json_obj open_n1))
   \<and> to_json open_n1 = open_n1_text
   \<and> data (snd (from_json example_runtime payload_text fresh_message)) = JUndefined"
  by (simp add: to_json_open_n1 from_json_def from_json_try_def parse_payload payload_obj_def
        PROTOCOL_VERSION_def PROTOCOL_MAGIC_def)
     (simp add: to_json_obj_def open_n1_def RemoteExecutionMessage_def)

lemma from_json_try_reads_data:
  assumes "JSON_parse env s = Some (JObj kvs)" and "from_json_try env s m0 = Inr m'"
  shows "data m' = (case map_of kvs ''data'' of None \<Rightarrow> JUndefined | Some v \<Rightarrow> v)"
  using assms
  by (auto simp: from_json_try_def split: if_splits sum.splits option.splits)

text \<open>
  C5, amended. In a runtime whose \<open>JSON.parse\<close> reads JSON values back from their text,
  the text that \<open>to_json\<close> writes parses to an object with the properties \<open>version\<close> and
  \<open>magic\<close>, then \<open>type\<close> and \<open>source\<close> (unless the field is \<open>undefined\<close>), then
  \<open>dest\<close> if the destination is set and \<open>data\<close> if the payload is set, each with the
  field's value, and no others: no \<open>payload\<close>, and no \<open>dest\<close> or \<open>data\<close> for an
  absent field. And a message that decodes has as its payload what the parsed object holds
  under \<open>data\<close>.
\<close>

theorem envelope_uses_data_key:
  assumes rt: "\<And>v. json_value v \<Longrightarrow> JSON_parse env (json_text v) = Some v"
    and enc: "encodable m"
    and parsed: "JSON_parse env s = Some (JObj kvs)"
    and decoded: "from_json_try env s m0 = Inr m'"
  shows "JSON_parse env (to_json m) =
           Some (JObj ([(''version'', JNum 1), (''magic'', JStr ''ue_py'')]
                       @ (if msg_type m = JUndefined then [] else [(''type'', msg_type m)])
                       @ (if source m = JUndefined then [] else [(''source'', source m)])
                       @ (if js_truthy (dest m) then [(''dest'', dest m)] else [])
                       @ (if js_truthy (data m) then [(''data'', data m)] else [])))
         \<and> data m' = (case map_of kvs ''data'' of None \<Rightarrow> JUndefined | Some v \<Rightarrow> v)"
  using parse_to_json [OF rt enc] from_json_try_reads_data [OF parsed decoded]
  by (simp add: envelope_def PROTOCOL_VERSION_def PROTOCOL_MAGIC_def)

theorem envelope_uses_data_key_witness:
  "encodable open_n1
   \<and> JSON_parse parsing_runtime pong_text
       = Some (JObj [(''version'', JNum 1), (''magic'', JStr ''ue_py''),
                     (''type'', JStr ''pong''), (''source'', JStr ''n1''),
                     (''data'', JObj [(''machine'', JStr ''WS1'')])])
   \<and> from_json_try parsing_runtime pong_text fresh_message
       = Inr \<lparr>msg_type = JStr ''pong'', source = JStr ''n1'', dest = JUndefined,
              data = JObj [(''machine'', JStr ''WS1'')]\<rparr>
   \<and> JSON_parse parsing_runtime open_n1_text
       = Some (JObj [(''version'', JNum 1), (''magic'', JStr ''ue_py''),
                     (''type'', JStr ''open_connection''), (''source'', JStr ''abc''),
                     (''dest'', JStr ''n1''),
                     (''data'', JObj [(''command_ip'', JStr ''127.0.0.1''),
                                      (''command_port'', JNum 6776)])])"
proof -
  have enc: "encodable open_n1"
    by (simp add: encodable_def open_n1_def RemoteExecutionMessage_def own_order_def
          array_index_def is_digit_def)
  have pong: "json_value pong_obj"
    by (simp add: pong_obj_def own_order_def array_index_def is_digit_def)
  have tx: "json_text pong_obj = pong_text"
    by (simp add: json_text_def pong_obj_def pong_text_def quote_def quote_char_def
          show_int_def)
  have parsed: "JSON_parse parsing_runtime pong_text
       = Some (JObj [(''version'', JNum 1), (''magic'', JStr ''ue_py''),
                     (''type'', JStr ''pong''), (''source'', JStr ''n1''),
                     (''data'', JObj [(''machine'', JStr ''WS1'')])])"
    using parsing_runtime_reads_back [OF pong] by (simp add: tx) (simp add: pong_obj_def)
  have decoded: "from_json_try parsing_runtime pong_text fresh_message
       = Inr \<lparr>msg_type = JStr ''pong'', source = JStr ''n1'', dest = JUndefined,
              data = JObj [(''machine'', JStr ''WS1'')]\<rparr>"
    by (simp add: from_json_try_def parsed PROTOCOL_VERSION_def PROTOCOL_MAGIC_def
          fresh_message_def RemoteExecutionMessage2_def RemoteExecutionMessage_def)
  show ?thesis
    using enc parsed decoded
      envelope_uses_data_key [OF parsing_runtime_reads_back enc parsed decoded]
    by (simp add: to_json_open_n1)
       (simp add: open_n1_def RemoteExecutionMessage_def TYPE_OPEN_CONNECTION_def)
qed

text \<open>
  C6 as stated fails: a message whose destination is the empty string is received by a node
  with another id, though its destination is neither absent nor that id.
\<close>

theorem filter_empty_dest_counterexample:
  "passes_receive_filter example_runtime to_nobody ''me''
   \<and> \<not> (source to_nobody \<noteq> JStr ''me''
          \<and> (dest to_nobody = JUndefined \<or> dest to_nobody = JNull
              \<or> dest to_nobody = JStr ''me''))"
  by (simp add: passes_receive_filter_def to_nobody_def RemoteExecutionMessage_def)

text \<open>
  C6, amended. For a message whose source and destination are strings or absent, the filter
  passes exactly when the source is not the local id and the destination is absent, empty, or
  the local id.
\<close>

theorem passes_receive_filter_iff:
  assumes "string_or_absent (source m)" and "string_or_absent (dest m)"
  shows "passes_receive_filter env m node_id
         = (source m \<noteq> JStr node_id
            \<and> (absent (dest m) \<or> dest m = JStr [] \<or> dest m = JStr node_id))"
  using assms
  by (cases "source m"; cases "dest m") (auto simp: passes_receive_filter_def)

theorem passes_receive_filter_iff_witness:
  "string_or_absent (source to_nobody) \<and> string_or_absent (dest to_nobody)
   \<and> passes_receive_filter example_runtime to_nobody ''me''
       = (source to_nobody \<noteq> JStr ''me''
          \<and> (absent (dest to_nobody) \<or> dest to_nobody = JStr []
              \<or> dest to_nobody = JStr ''me''))
   \<and> passes_receive_filter example_runtime to_nobody ''me''
   \<and> \<not> passes_receive_filter example_runtime to_nobody ''n1''
   \<and> \<not> passes_receive_filter example_runtime open_n1 ''me''
   \<and> passes_receive_filter example_runtime open_n1 ''n1''"
proof -
  have a: "string_or_absent (source to_nobody)" and b: "string_or_absent (dest to_nobody)"
    by (simp_all add: to_nobody_def RemoteExecutionMessage_def)
  have c: "string_or_absent (source open_n1)" and d: "string_or_absent (dest open_n1)"
    by (simp_all add: open_n1_def RemoteExecutionMessage_def)
  show ?thesis
    using a b passes_receive_filter_iff [OF a b, of example_runtime "''me''"]
      passes_receive_filter_iff [OF a b, of example_runtime "''n1''"]
      passes_receive_filter_iff [OF c d, of example_runtime "''me''"]
      passes_receive_filter_iff [OF c d, of example_runtime "''n1''"]
    by (simp add: to_nobody_def open_n1_def RemoteExecutionMessage_def)
qed

section \<open>The registry\<close>

lemma time_now_zero: "time_now None clk = clk" "time_now (Some 0) clk = clk"
  by (simp_all add: time_now_def)

lemma time_now_idem: "time_now (Some (time_now now clk)) clk = time_now now clk"
  by (simp add: time_now_def split: option.splits)

lemma time_now_set: "t \<noteq> 0 \<Longrightarrow> time_now (Some t) clk = t"
  by (simp add: time_now_def)

lemma map_of_obj_replace_at:
  "map_of (obj_replace k v kvs) x =
     (if x = k \<and> map_of kvs k \<noteq> None then Some v else map_of kvs x)"
  by (induction kvs) auto

lemma map_of_obj_replace:
  "map_of kvs k \<noteq> None \<Longrightarrow> map_of (obj_replace k v kvs) = (map_of kvs)(k \<mapsto> v)"
  by (simp add: fun_eq_iff map_of_obj_replace_at)

lemma keys_obj_replace: "map fst (obj_replace k v kvs) = map fst kvs"
  by (induction kvs) auto

lemma set_obj_replace: "set (obj_replace k v kvs) \<subseteq> insert (k, v) (set kvs)"
  by (induction kvs) (auto split: if_splits)

lemma map_of_obj_insert_index_at:
  "map_of kvs k = None \<Longrightarrow>
   map_of (obj_insert_index i k v kvs) x = (if x = k then Some v else map_of kvs x)"
  by (induction kvs) (auto split: option.splits if_splits)

lemma map_of_obj_insert_index:
  "map_of kvs k = None \<Longrightarrow> map_of (obj_insert_index i k v kvs) = (map_of kvs)(k \<mapsto> v)"
  by (simp add: fun_eq_iff map_of_obj_insert_index_at)

lemma map_of_snoc_at:
  "map_of kvs k = None \<Longrightarrow>
   map_of (kvs @ [(k, v)]) x = (if x = k then Some v else map_of kvs x)"
  by (simp add: map_add_def split: option.splits)

lemma map_of_snoc:
  "map_of kvs k = None \<Longrightarrow> map_of (kvs @ [(k, v)]) = (map_of kvs)(k \<mapsto> v)"
  by (auto simp: fun_eq_iff map_add_def split: option.splits)

lemma set_obj_insert_index: "set (obj_insert_index i k v kvs) = insert (k, v) (set kvs)"
proof (induction kvs)
  case Nil
  then show ?case by simp
next
  case (Cons p kvs)
  obtain k' v' where "p = (k', v')" by (cases p)
  with Cons.IH show ?case
    by (cases "array_index k'") (simp_all add: insert_commute)
qed

lemma distinct_obj_insert_index:
  "map_of kvs k = None \<Longrightarrow> distinct (map fst kvs) \<Longrightarrow>
   distinct (map fst (obj_insert_index i k v kvs))"
proof (induction kvs)
  case Nil
  then show ?case by simp
next
  case (Cons p kvs)
  obtain k' v' where p: "p = (k', v')" by (cases p)
  from Cons.prems p have k: "k' \<noteq> k" "map_of kvs k = None" "k \<notin> fst ` set kvs"
    by (auto simp: map_of_eq_None_iff split: if_splits)
  from Cons.prems p have d: "k' \<notin> fst ` set kvs" "distinct (map fst kvs)"
    by auto
  have "k' \<notin> fst ` set (obj_insert_index i k v kvs)"
    using k(1) d(1) by (simp add: set_obj_insert_index)
  then show ?case
    using p k d Cons.IH [OF k(2) d(2)] by (simp split: option.splits)
qed

lemma map_of_obj_set:
  "k \<noteq> ''__proto__'' \<Longrightarrow> map_of (obj_set k v kvs) = (map_of kvs)(k \<mapsto> v)"
  by (cases "map_of kvs k"; cases "array_index k")
     (simp_all add: obj_set_def map_of_obj_replace map_of_obj_insert_index map_of_snoc
        del: map_of_append)

lemma distinct_obj_set:
  assumes "distinct (map fst kvs)"
  shows "distinct (map fst (obj_set k v kvs))"
proof (cases "map_of kvs k")
  case None
  then have "k \<notin> fst ` set kvs"
    by (simp add: map_of_eq_None_iff)
  then show ?thesis
    using assms None distinct_obj_insert_index [OF None assms]
    by (cases "array_index k") (simp_all add: obj_set_def)
next
  case (Some a)
  then show ?thesis
    using assms by (simp add: obj_set_def keys_obj_replace)
qed

lemma set_obj_set: "set (obj_set k v kvs) \<subseteq> insert (k, v) (set kvs)"
  using set_obj_replace [of k v kvs]
  by (auto simp: obj_set_def set_obj_insert_index split: option.splits)

lemma one_entry:
  "distinct (map fst kvs) \<Longrightarrow> map_of kvs k = Some v \<Longrightarrow>
   length (filter (\<lambda>p. fst p = k) kvs) = 1"
  by (induction kvs) (auto simp: filter_empty_conv image_iff split: if_splits dest: map_of_SomeD)

lemma update_remote_node_eq:
  "update_remote_node ns node_id d now clk =
     (if map_of ns ''hasOwnProperty'' \<noteq> None then Threw TypeError
      else if node_id = ''__proto__''
        then Reparented ns \<lparr>node_data = d, last_pong = time_now now clk\<rparr>
      else Stored (obj_set node_id \<lparr>node_data = d, last_pong = time_now now clk\<rparr> ns))"
  by (simp add: update_remote_node_def RemoteExecutionNode_def Let_def time_now_idem)

lemma should_timeout_eq:
  "should_timeout nd (Some (time_now now clk)) clk =
     (last_pong nd + NODE_TIMEOUT_SECONDS < time_now now clk)"
  by (simp add: should_timeout_def time_now_idem)

text \<open>
  What a sweep leaves: if it returns, the nodes that should not time out; however it ends,
  all of those, in their order; and it returns if no data object stands in the way of the
  log line.
\<close>

lemma timeout_loop_returned:
  "timeout_loop h now clk ns = Returned u r \<Longrightarrow>
   r = filter (\<lambda>(k, nd). \<not> should_timeout nd (Some now) clk) ns"
  by (induction ns arbitrary: r) (auto split: if_splits sum.splits outcome.splits)

lemma timeout_loop_keeps:
  "filter (\<lambda>(k, nd). \<not> should_timeout nd (Some now) clk)
     (outcome_state (timeout_loop h now clk ns))
   = filter (\<lambda>(k, nd). \<not> should_timeout nd (Some now) clk) ns"
  by (induction ns) (auto simp: outcome_state_def split: sum.splits outcome.splits)

lemma timeout_loop_returns:
  "\<forall>p \<in> set ns. data_to_string h (node_data (snd p)) \<noteq> Inl TypeError \<Longrightarrow>
   timeout_loop h now clk ns
     = Returned () (filter (\<lambda>(k, nd). \<not> should_timeout nd (Some now) clk) ns)"
  by (induction ns) (auto simp: data_to_string_def split: sum.splits objref.splits if_splits)

text \<open>
  C10. When the timestamp passed to \<open>update_remote_node\<close> or \<open>timeout_remote_nodes\<close> is
  0 or \<open>null\<close>, \<open>_time_now\<close> replaces it by the reading of the wall clock: the node is
  made with the clock's time as the time it was last seen, and the sweep decides by the
  clock's time which nodes go and which stay.
\<close>

theorem zero_timestamp_is_replaced:
  assumes "now = None \<or> now = Some 0"
  shows "time_now now clk = clk
   \<and> update_remote_node ns node_id d now clk =
       (if map_of ns ''hasOwnProperty'' \<noteq> None then Threw TypeError
        else if node_id = ''__proto__''
          then Reparented ns \<lparr>node_data = d, last_pong = clk\<rparr>
        else Stored (obj_set node_id \<lparr>node_data = d, last_pong = clk\<rparr> ns))
   \<and> (\<forall>r. timeout_remote_nodes h ns now clk = Returned () r \<longrightarrow>
          r = filter (\<lambda>(k, nd). \<not> last_pong nd + NODE_TIMEOUT_SECONDS < clk) ns)
   \<and> filter (\<lambda>(k, nd). \<not> last_pong nd + NODE_TIMEOUT_SECONDS < clk)
        (outcome_state (timeout_remote_nodes h ns now clk))
       = filter (\<lambda>(k, nd). \<not> last_pong nd + NODE_TIMEOUT_SECONDS < clk) ns
   \<and> ((\<forall>p \<in> set ns. data_to_string h (node_data (snd p)) \<noteq> Inl TypeError) \<longrightarrow>
        timeout_remote_nodes h ns now clk
          = Returned () (filter (\<lambda>(k, nd). \<not> last_pong nd + NODE_TIMEOUT_SECONDS < clk) ns))"
proof -
  let ?live = "\<lambda>(k :: string, nd). \<not> last_pong nd + NODE_TIMEOUT_SECONDS < clk"
  have t: "time_now now clk = clk"
    using assms by (auto simp: time_now_zero)
  have s: "(\<lambda>(k :: string, nd). \<not> should_timeout nd (Some clk) clk) = ?live"
    using should_timeout_eq [of _ now clk] by (simp add: t)
  have sweep: "timeout_remote_nodes h ns now clk = timeout_loop h clk clk ns"
    by (simp add: timeout_remote_nodes_def t)
  have a: "update_remote_node ns node_id d now clk =
       (if map_of ns ''hasOwnProperty'' \<noteq> None then Threw TypeError
        else if node_id = ''__proto__''
          then Reparented ns \<lparr>node_data = d, last_pong = clk\<rparr>
        else Stored (obj_set node_id \<lparr>node_data = d, last_pong = clk\<rparr> ns))"
    by (simp only: update_remote_node_eq t)
  have b: "\<forall>r. timeout_remote_nodes h ns now clk = Returned () r \<longrightarrow> r = filter ?live ns"
    using timeout_loop_returned [of h clk clk ns] by (simp only: sweep s) blast
  have c: "filter ?live (outcome_state (timeout_remote_nodes h ns now clk)) = filter ?live ns"
    using timeout_loop_keeps [of clk clk h ns] by (simp only: sweep s)
  have d: "(\<forall>p \<in> set ns. data_to_string h (node_data (snd p)) \<noteq> Inl TypeError) \<longrightarrow>
        timeout_remote_nodes h ns now clk = Returned () (filter ?live ns)"
    using timeout_loop_returns [of ns h clk clk] by (simp only: sweep s) blast
  from t a b c d show ?thesis
    by (intro conjI)
qed

theorem zero_timestamp_is_replaced_witness:
  "(Some 0 = (None :: int option) \<or> Some (0 :: int) = Some 0)
   \<and> time_now (Some 0) clock_2026 = clock_2026
   \<and> update_remote_node BroadcastNodes ''n1'' (RObj 0) (Some 0) clock_2026
       = Stored [(''n1'', \<lparr>node_data = RObj 0, last_pong = clock_2026\<rparr>)]
   \<and> timeout_remote_nodes ws1_heap n1_nodes (Some 0) clock_2026 = Returned () []"
proof -
  have h: "Some 0 = (None :: int option) \<or> Some (0 :: int) = Some 0"
    by simp
  have p: "\<forall>p \<in> set n1_nodes. data_to_string ws1_heap (node_data (snd p)) \<noteq> Inl TypeError"
    by (simp add: n1_nodes_def ws1_heap_def data_to_string_def heap_get_def)
  have e: "map_of BroadcastNodes ''hasOwnProperty'' = None"
    by (simp add: BroadcastNodes_def)
  have o: "obj_set ''n1'' \<lparr>node_data = RObj 0, last_pong = clock_2026\<rparr> BroadcastNodes
      = [(''n1'', \<lparr>node_data = RObj 0, last_pong = clock_2026\<rparr>)]"
    by (simp add: BroadcastNodes_def obj_set_def array_index_def is_digit_def)
  have ne: "(''n1'' = ''__proto__'') = False"
    by simp
  have f: "filter (\<lambda>(k, nd). \<not> last_pong nd + NODE_TIMEOUT_SECONDS < clock_2026) n1_nodes = []"
    by (simp add: n1_nodes_def clock_2026_def NODE_TIMEOUT_SECONDS_def)
  from zero_timestamp_is_replaced [OF h, of clock_2026 BroadcastNodes "''n1''" "RObj 0" ws1_heap]
  have 1: "time_now (Some 0) clock_2026 = clock_2026"
    and 2: "update_remote_node BroadcastNodes ''n1'' (RObj 0) (Some 0) clock_2026
       = Stored [(''n1'', \<lparr>node_data = RObj 0, last_pong = clock_2026\<rparr>)]"
    by (simp_all only: e o ne simp_thms if_False)
  from zero_timestamp_is_replaced [OF h, of clock_2026 n1_nodes "''n1''" "RObj 0" ws1_heap] p
  have 3: "timeout_remote_nodes ws1_heap n1_nodes (Some 0) clock_2026 = Returned () []"
    by (simp only: f)
  from h 1 2 3 show ?thesis
    by (intro conjI)
qed

text \<open>
  C7 at \<open>t0 = 0\<close>. The upsert stores the node as last seen at the wall clock's time, not at
  0, and the sweep at \<open>t0 + timeout + 1\<close> keeps the node that it is to remove.
\<close>

theorem sweep_after_upsert_at_zero:
  "update_remote_node BroadcastNodes ''n1'' (RObj 0) (Some 0) clock_2026
     = Stored [(''n1'', \<lparr>node_data = RObj 0, last_pong = clock_2026\<rparr>)]
   \<and> timeout_remote_nodes ws1_heap [(''n1'', \<lparr>node_data = RObj 0, last_pong = clock_2026\<rparr>)]
         (Some (0 + NODE_TIMEOUT_SECONDS + 1)) clock_2026
     = Returned () [(''n1'', \<lparr>node_data = RObj 0, last_pong = clock_2026\<rparr>)]"
  by (simp add: update_remote_node_eq timeout_remote_nodes_def should_timeout_def
        BroadcastNodes_def time_now_def clock_2026_def NODE_TIMEOUT_SECONDS_def obj_set_def
        array_index_def is_digit_def)

text \<open>
  Away from the timestamp 0, for a node id other than \<open>__proto__\<close>, and with data objects
  that the log line can print, the registry does what C7 says: after the upsert there is one
  record for the node; the sweep at \<open>t0 + timeout + 1\<close> removes it and the sweep at
  \<open>t0 + timeout - 1\<close> keeps it.
\<close>

lemma upsert_then_sweep:
  assumes t0: "t0 \<noteq> 0" "t0 + NODE_TIMEOUT_SECONDS + 1 \<noteq> 0" "t0 + NODE_TIMEOUT_SECONDS - 1 \<noteq> 0"
    and n: "n \<noteq> ''__proto__''"
    and ns: "distinct (map fst ns)" "map_of ns ''hasOwnProperty'' = None"
    and pr: "\<forall>p \<in> set ns. data_to_string h (node_data (snd p)) \<noteq> Inl TypeError"
      "data_to_string h d \<noteq> Inl TypeError"
  shows "\<exists>ns' gone kept. update_remote_node ns n d (Some t0) clk = Stored ns'
     \<and> length (filter (\<lambda>p. fst p = n) ns') = 1
     \<and> map_of ns' n = Some \<lparr>node_data = d, last_pong = t0\<rparr>
     \<and> timeout_remote_nodes h ns' (Some (t0 + NODE_TIMEOUT_SECONDS + 1)) clk = Returned () gone
     \<and> map_of gone n = None
     \<and> timeout_remote_nodes h ns' (Some (t0 + NODE_TIMEOUT_SECONDS - 1)) clk = Returned () kept
     \<and> map_of kept n = Some \<lparr>node_data = d, last_pong = t0\<rparr>"
proof -
  let ?nd = "\<lparr>node_data = d, last_pong = t0\<rparr>"
  let ?ns = "obj_set n ?nd ns"
  let ?late = "\<lambda>(k :: string, nd). \<not> should_timeout nd (Some (t0 + NODE_TIMEOUT_SECONDS + 1)) clk"
  let ?early = "\<lambda>(k :: string, nd). \<not> should_timeout nd (Some (t0 + NODE_TIMEOUT_SECONDS - 1)) clk"
  have u: "update_remote_node ns n d (Some t0) clk = Stored ?ns"
    using t0(1) n ns(2) by (simp add: update_remote_node_eq time_now_set)
  have m: "map_of ?ns n = Some ?nd"
    using n by (simp add: map_of_obj_set)
  have dist: "distinct (map fst ?ns)"
    using ns(1) by (rule distinct_obj_set)
  have uniq: "b = ?nd" if "(n, b) \<in> set ?ns" for b
    using map_of_is_SomeI [OF dist that] m by simp
  have pr': "\<forall>p \<in> set ?ns. data_to_string h (node_data (snd p)) \<noteq> Inl TypeError"
    using pr set_obj_set [of n ?nd ns] by auto
  have late: "timeout_remote_nodes h ?ns (Some (t0 + NODE_TIMEOUT_SECONDS + 1)) clk
      = Returned () (filter ?late ?ns)"
    using timeout_loop_returns [OF pr'] t0(2) by (simp add: timeout_remote_nodes_def time_now_set)
  have early: "timeout_remote_nodes h ?ns (Some (t0 + NODE_TIMEOUT_SECONDS - 1)) clk
      = Returned () (filter ?early ?ns)"
    using timeout_loop_returns [OF pr'] t0(3) by (simp add: timeout_remote_nodes_def time_now_set)
  have gone: "map_of (filter ?late ?ns) n = None"
    using t0(2) by (auto simp: map_of_eq_None_iff image_iff should_timeout_def time_now_set
        dest!: uniq)
  have "(n, ?nd) \<in> set (filter ?early ?ns)"
    using map_of_SomeD [OF m] t0(3) by (simp add: should_timeout_def time_now_set)
  moreover have "distinct (map fst (filter ?early ?ns))"
    using dist by (rule distinct_map_filter)
  ultimately have kept: "map_of (filter ?early ?ns) n = Some ?nd"
    by (simp add: map_of_is_SomeI)
  show ?thesis
    using u m late early gone kept one_entry [OF dist m] by blast
qed

text \<open>
  The list that \<open>remote_nodes\<close> returns holds, for a node whose data is an object, that
  very object.
\<close>

lemma remote_nodes_hands_out_stored_object:
  "map_of ns n = Some nd \<Longrightarrow> node_data nd = RObj a \<Longrightarrow> a \<in> set (snd (remote_nodes h ns))"
proof (induction ns arbitrary: h)
  case Nil
  then show ?case by simp
next
  case (Cons p ns)
  obtain k nd' where p: "p = (k, nd')"
    by (cases p)
  obtain h1 r where no: "new_Object h (node_data nd') = (h1, r)"
    by (cases "new_Object h (node_data nd')")
  obtain h2 rs where rec: "remote_nodes (heap_set_prop h1 r ''node_id'' (JStr k)) ns = (h2, rs)"
    by (cases "remote_nodes (heap_set_prop h1 r ''node_id'' (JStr k)) ns")
  have res: "snd (remote_nodes h (p # ns)) = r # rs"
    using p no rec by simp
  show ?case
  proof (cases "k = n")
    case True
    with Cons.prems p have "nd' = nd" by simp
    with Cons.prems no have "r = a" by (simp add: new_Object_def)
    with res show ?thesis by simp
  next
    case False
    with Cons.prems p have "map_of ns n = Some nd" by simp
    from Cons.IH [OF this Cons.prems(2), of "heap_set_prop h1 r ''node_id'' (JStr k)"] rec
    have "a \<in> set rs" by simp
    with res show ?thesis by simp
  qed
qed

text \<open>
  C8 on a registry with one node. The record that \<open>remote_nodes\<close> returns is the stored
  data object itself, at address 0: the getter has already written \<open>node_id\<close> into it,
  and a write to the returned record changes what the registry holds.
\<close>

theorem snapshot_aliases_stored_data:
  "stored_data ws1_heap n1_nodes ''n1'' = Some [(''machine'', JStr ''WS1'')]
   \<and> remote_nodes ws1_heap n1_nodes
       = ([[(''machine'', JStr ''WS1''), (''node_id'', JStr ''n1'')]], [0])
   \<and> stored_data (heap_set_prop (fst (remote_nodes ws1_heap n1_nodes))
                     (hd (snd (remote_nodes ws1_heap n1_nodes))) ''machine'' (JStr ''X''))
        n1_nodes ''n1''
       = Some [(''machine'', JStr ''X''), (''node_id'', JStr ''n1'')]"
  by (simp add: stored_data_def ws1_heap_def n1_nodes_def heap_get_def heap_set_prop_def
        new_Object_def obj_set_def array_index_def is_digit_def)

section \<open>The command connection and the session\<close>

lemma broadcast_message_sends:
  "bc_broadcast_socket bc = Some sent \<Longrightarrow>
   broadcast_message bc m = Returned () (bc\<lparr>bc_broadcast_socket := Some (sent @ [to_json m])\<rparr>)"
  by (simp add: broadcast_message_def Let_def)

lemma broadcast_open_connection_sends:
  "bc_broadcast_socket bc = Some sent \<Longrightarrow>
   \<exists>d. broadcast_open_connection bc rid = Returned () (bc\<lparr>bc_broadcast_socket := Some (sent @ [d])\<rparr>)"
  unfolding broadcast_open_connection_def
  by (rule exI, erule broadcast_message_sends)

lemma try_accept_first_round:
  assumes "cc_command_listen_socket c \<noteq> None"
    and "broadcast_open_connection bc (cc_remote_node_id c) = Returned () bc'"
  shows "try_accept c (Some bc) = Returned () (c, Some bc')"
  unfolding try_accept_def
  by (subst try_accept_from.simps) (simp add: assms)

text \<open>
  Whatever the connection, \<open>open\<close> returns after one broadcast: the listening socket it
  has just created is what \<open>_try_accept\<close> tests, and the channel socket is as before.
\<close>

lemma open_never_waits:
  assumes "bc_broadcast_socket bc = Some sent"
  shows "\<exists>c' d. CommandConnection_open c (Some bc)
            = Returned () (c', Some (bc\<lparr>bc_broadcast_socket := Some (sent @ [d])\<rparr>))
          \<and> cc_command_channel_socket c' = cc_command_channel_socket c
          \<and> cc_command_listen_socket c' \<noteq> None"
proof -
  let ?c = "init_command_listen_socket (c\<lparr>cc_nodes := Some BroadcastNodes\<rparr>)"
  obtain d where d: "broadcast_open_connection bc (cc_remote_node_id ?c)
      = Returned () (bc\<lparr>bc_broadcast_socket := Some (sent @ [d])\<rparr>)"
    using broadcast_open_connection_sends [OF assms] by blast
  have l: "cc_command_listen_socket ?c \<noteq> None"
    by (simp add: init_command_listen_socket_def Let_def)
  have "CommandConnection_open c (Some bc)
      = Returned () (?c, Some (bc\<lparr>bc_broadcast_socket := Some (sent @ [d])\<rparr>))"
    unfolding CommandConnection_open_def by (rule try_accept_first_round [OF l d])
  moreover have "cc_command_channel_socket ?c = cc_command_channel_socket c"
    by (simp add: init_command_listen_socket_def Let_def)
  ultimately show ?thesis
    using l by blast
qed

lemma broadcast_open_n1:
  "broadcast_open_connection started_broadcast ''n1''
     = Returned () (started_broadcast\<lparr>bc_broadcast_socket := Some [open_n1_text]\<rparr>)"
  using to_json_open_n1
  by (simp add: broadcast_open_connection_def broadcast_message_def started_broadcast_def
        RemoteExecutionConfig_def open_n1_def Let_def)

text \<open>
  C1 on a new connection with the session's discovery running and no peer ever connecting.
  \<open>open\<close> is to fail after six attempts and release the listening socket; it returns
  after the first broadcast, with no accepted socket and the listening socket in place.
\<close>

theorem open_returns_without_accept:
  "CommandConnection_open fresh_connection (Some started_broadcast)
     = Returned () (listening, Some (started_broadcast\<lparr>bc_broadcast_socket := Some [open_n1_text]\<rparr>))
   \<and> cc_command_channel_socket listening = None
   \<and> cc_command_listen_socket listening
       = Some \<lparr>ls_port = 6776, ls_host = ''127.0.0.1'', ls_backlog = 1\<rparr>"
proof -
  have i: "init_command_listen_socket (fresh_connection\<lparr>cc_nodes := Some BroadcastNodes\<rparr>) = listening"
    by (simp add: init_command_listen_socket_def listening_def fresh_connection_def
          RemoteExecutionCommandConnection_def RemoteExecutionConfig_def BroadcastNodes_def)
  have l: "cc_command_listen_socket listening \<noteq> None"
    by (simp add: listening_def)
  have r: "cc_remote_node_id listening = ''n1''"
    by (simp add: listening_def fresh_connection_def RemoteExecutionCommandConnection_def)
  have "try_accept listening (Some started_broadcast)
     = Returned () (listening, Some (started_broadcast\<lparr>bc_broadcast_socket := Some [open_n1_text]\<rparr>))"
    by (rule try_accept_first_round [OF l]) (simp add: r broadcast_open_n1)
  then show ?thesis
    by (simp add: CommandConnection_open_def i)
       (simp add: listening_def fresh_connection_def RemoteExecutionCommandConnection_def)
qed

lemma await_result_Some: "await_result c = Some y \<Longrightarrow> cc_result c \<noteq> None"
  by (rule await_result.raw_induct [where P = "\<lambda>c y. cc_result c \<noteq> None"])
     (fastforce split: option.splits)

text \<open>
  The loop of \<open>run_command\<close> ends only if \<open>_result\<close> is set when it starts.
\<close>

lemma await_result_never: "cc_result c = None \<Longrightarrow> await_result c = None"
  using await_result_Some [of c] by (cases "await_result c") auto

lemma await_result_set:
  "cc_result c = Some result \<Longrightarrow> await_result c = Some (result, c\<lparr>cc_result := None\<rparr>)"
  by (subst await_result.simps) simp

text \<open>
  The handler for incoming data checks the message and drops it: it never sets \<open>_result\<close>.
\<close>

lemma on_data_keeps_state: "on_data env c d = Returned u c' \<Longrightarrow> c' = c"
  by (auto simp: on_data_def split: sum.splits)

lemma run_command_never_returns:
  "CommandConnection_run_command
     (c\<lparr>cc_command_channel_socket := Some written, cc_result := None\<rparr>)
     command unattended exec_mode = None"
  by (simp add: CommandConnection_run_command_def send_message_def Let_def await_result_never)





lemma receive_result:
  "receive_message result_runtime connected result_text TYPE_COMMAND_RESULT =
     Inr (RemoteExecutionMessage (JStr ''command_result'') (JStr ''n1'') (JStr ''abc'')
            (JObj [(''success'', JBool True), (''result'', JStr ''1'')]))"
  by (simp add: receive_message_def from_json_bytes_def from_json_def from_json_try_def
        result_runtime_def table_runtime_def result_obj_def RemoteExecutionMessage2_def
        RemoteExecutionMessage_def passes_receive_filter_def connected_def on_connection_def
        listening_def fresh_connection_def RemoteExecutionCommandConnection_def
        PROTOCOL_VERSION_def PROTOCOL_MAGIC_def TYPE_COMMAND_RESULT_def)

lemma connected_fields:
  "cc_result connected = None" "cc_command_channel_socket connected = Some []"
  "cc_node_id connected = ''abc''" "cc_remote_node_id connected = ''n1''"
  by (simp_all add: connected_def on_connection_def listening_def fresh_connection_def
        RemoteExecutionCommandConnection_def)

lemma to_json_print_1:
  "to_json (RemoteExecutionMessage (JStr TYPE_COMMAND) (JStr ''abc'') (JStr ''n1'')
              (JObj [(''command'', JStr ''print(1)''), (''unattended'', JBool True),
                     (''exec_mode'', JStr MODE_EVAL_STATEMENT)])) = print_1_text"
  by (simp add: to_json_def print_1_text_def RemoteExecutionMessage_def
        to_json_obj_def JSON_stringify_object_def quote_def quote_char_def show_int_def
        PROTOCOL_VERSION_def PROTOCOL_MAGIC_def TYPE_COMMAND_def MODE_EVAL_STATEMENT_def)

lemma result_message_is_dropped:
  "on_data result_runtime connected result_text = Returned () connected"
  by (simp add: on_data_def receive_result)

text \<open>
  C3 on an open connection with its accepted socket. \<open>run_command\<close> is to return the
  payload of the result message or fail after a bounded wait; it writes the command to the
  socket and then never returns and never throws.
\<close>

theorem run_command_spins_forever:
  "cc_result connected = None
   \<and> send_message connected
        (RemoteExecutionMessage (JStr TYPE_COMMAND) (JStr ''abc'') (JStr ''n1'')
           (JObj [(''command'', JStr ''print(1)''), (''unattended'', JBool True),
                  (''exec_mode'', JStr MODE_EVAL_STATEMENT)]))
       = Returned () (connected\<lparr>cc_command_channel_socket := Some [print_1_text]\<rparr>)
   \<and> CommandConnection_run_command connected ''print(1)'' True MODE_EVAL_STATEMENT = None"
proof -
  have "CommandConnection_run_command
     (connected\<lparr>cc_command_channel_socket := Some [], cc_result := None\<rparr>)
     ''print(1)'' True MODE_EVAL_STATEMENT = None"
    by (rule run_command_never_returns)
  moreover have "connected\<lparr>cc_command_channel_socket := Some [], cc_result := None\<rparr> = connected"
    by (simp add: connected_def on_connection_def listening_def fresh_connection_def
        RemoteExecutionCommandConnection_def)
  ultimately show ?thesis
    by (simp add: connected_fields send_message_def Let_def to_json_print_1)
qed

text \<open>
  No state that a command connection can reach has \<open>_result\<close> set: the constructor makes it
  \<open>null\<close>, and no method or handler assigns anything else.
\<close>

lemma try_accept_from_keeps_connection:
  "fst (outcome_state (try_accept_from i c bco)) = c"
proof (induction i c bco rule: try_accept_from.induct)
  case (1 i c bco)
  show ?case
  proof (cases "i < 6")
    case False
    then show ?thesis
      by (subst try_accept_from.simps) (simp add: outcome_state_def)
  next
    case True
    show ?thesis
    proof (cases bco)
      case None
      with True show ?thesis
        by (subst try_accept_from.simps) (simp add: outcome_state_def)
    next
      case (Some bc)
      show ?thesis
      proof (cases "broadcast_open_connection bc (cc_remote_node_id c)")
        case (Thrown e bc')
        with True Some show ?thesis
          by (subst try_accept_from.simps) (simp add: outcome_state_def)
      next
        case (Returned u bc')
        with True Some "1.IH" [OF True Some Returned] show ?thesis
          by (subst try_accept_from.simps) (simp add: outcome_state_def)
      qed
    qed
  qed
qed

lemma open_keeps_result:
  "cc_result (fst (outcome_state (CommandConnection_open c bco))) = cc_result c"
proof -
  have "fst (outcome_state (CommandConnection_open c bco))
      = init_command_listen_socket (c\<lparr>cc_nodes := Some BroadcastNodes\<rparr>)"
    unfolding CommandConnection_open_def try_accept_def
    by (rule try_accept_from_keeps_connection)
  then show ?thesis
    by (simp add: init_command_listen_socket_def Let_def)
qed

lemma close_keeps_result:
  "cc_result (fst (outcome_state (CommandConnection_close c bco))) = cc_result c"
  by (simp add: CommandConnection_close_def outcome_state_def
        split: option.splits outcome.splits)

lemma on_data_keeps_connection: "outcome_state (on_data env c d) = c"
  by (simp add: on_data_def outcome_state_def split: sum.splits)

lemma run_command_clears_result:
  "CommandConnection_run_command c command unattended exec_mode = Some r \<Longrightarrow>
   cc_result c = None \<Longrightarrow> cc_result (outcome_state r) = None"
  by (auto simp: CommandConnection_run_command_def send_message_def Let_def outcome_state_def
      await_result_never split: option.splits outcome.splits)

lemma reachable_result: "reachable c \<Longrightarrow> cc_result c = None"
proof (induction rule: reachable.induct)
  case (constructed cfg node_id remote_node_id)
  show ?case by (simp add: RemoteExecutionCommandConnection_def)
next
  case (opened c bco)
  then show ?case by (simp add: open_keeps_result)
next
  case (closed c bco)
  then show ?case by (simp add: close_keeps_result)
next
  case (accepted c)
  then show ?case by (simp add: on_connection_def)
next
  case (received c env d)
  then show ?case by (simp add: on_data_keeps_connection)
next
  case (ran c command unattended exec_mode r)
  then show ?case by (simp add: run_command_clears_result)
qed

text \<open>
  So on every connection a session can have, \<open>run_command\<close> of the session either does not
  return, or throws the TypeError of writing to a socket that is not there; it never returns
  a result and never throws the error that reports a failed command.
\<close>

lemma session_run_command_reachable:
  assumes "reachable c" and "re_command_connection s = Some c"
  shows "RemoteExecution_run_command s command unattended exec_mode raise_on_failure = None
       \<or> RemoteExecution_run_command s command unattended exec_mode raise_on_failure
           = Some (Thrown TypeError s)"
proof (cases "cc_command_channel_socket c")
  case None
  then have "CommandConnection_run_command c command unattended exec_mode
      = Some (Thrown TypeError c)"
    by (simp add: CommandConnection_run_command_def send_message_def Let_def)
  then show ?thesis
    using assms(2) by (simp add: RemoteExecution_run_command_def)
next
  case (Some written)
  have "c = c\<lparr>cc_command_channel_socket := Some written, cc_result := None\<rparr>"
    using Some reachable_result [OF assms(1)] by simp
  then have "CommandConnection_run_command c command unattended exec_mode = None"
    using run_command_never_returns [where c = c and written = written] by simp
  then show ?thesis
    using assms(2) by (simp add: RemoteExecution_run_command_def)
qed

lemma reachable_connected: "reachable connected"
proof -
  have "reachable fresh_connection"
    unfolding fresh_connection_def by (rule reachable.constructed)
  then have "reachable (fst (outcome_state (CommandConnection_open fresh_connection
      (Some started_broadcast))))"
    by (rule reachable.opened)
  moreover have "CommandConnection_open fresh_connection (Some started_broadcast)
     = Returned () (listening, Some (started_broadcast\<lparr>bc_broadcast_socket := Some [open_n1_text]\<rparr>))"
  proof -
    have i: "init_command_listen_socket (fresh_connection\<lparr>cc_nodes := Some BroadcastNodes\<rparr>) = listening"
      by (simp add: init_command_listen_socket_def listening_def fresh_connection_def
            RemoteExecutionCommandConnection_def RemoteExecutionConfig_def BroadcastNodes_def)
    have l: "cc_command_listen_socket listening \<noteq> None"
      by (simp add: listening_def)
    have r: "cc_remote_node_id listening = ''n1''"
      by (simp add: listening_def fresh_connection_def RemoteExecutionCommandConnection_def)
    have "try_accept listening (Some started_broadcast)
       = Returned () (listening, Some (started_broadcast\<lparr>bc_broadcast_socket := Some [open_n1_text]\<rparr>))"
      by (rule try_accept_first_round [OF l]) (simp add: r broadcast_open_n1)
    then show ?thesis
      by (simp add: CommandConnection_open_def i)
  qed
  ultimately have "reachable listening"
    by (simp add: outcome_state_def)
  then show ?thesis
    unfolding connected_def by (rule reachable.accepted)
qed

text \<open>
  C9 on a session whose command connection has been opened and has its accepted socket: the
  session's \<open>run_command\<close> is to fail with the remote failure text, or return the raw
  result; with \<open>raise_on_failure\<close> set or not, it does not return and does not throw.
\<close>

theorem session_run_command_never_returns:
  "re_command_connection connected_session = Some connected
   \<and> RemoteExecution_run_command connected_session ''print(1)'' True MODE_EVAL_STATEMENT True
       = None
   \<and> RemoteExecution_run_command connected_session ''print(1)'' True MODE_EVAL_STATEMENT False
       = None"
proof -
  have "CommandConnection_run_command
     (connected\<lparr>cc_command_channel_socket := Some [], cc_result := None\<rparr>)
     ''print(1)'' True MODE_EVAL_STATEMENT = None"
    by (rule run_command_never_returns)
  moreover have "connected\<lparr>cc_command_channel_socket := Some [], cc_result := None\<rparr> = connected"
    by (simp add: connected_def on_connection_def listening_def fresh_connection_def
        RemoteExecutionCommandConnection_def)
  ultimately show ?thesis
    by (simp add: RemoteExecution_run_command_def connected_session_def)
qed

text \<open>
  Were the command connection to hand a result payload back, the session would do with it
  what C9 says: with \<open>raise_on_failure\<close> set and \<open>success\<close> false, throw an error whose
  message carries the remote \<open>result\<close> text; otherwise return the payload unchanged.
\<close>

lemma session_logic_given_payload:
  assumes "re_command_connection s = Some c"
    and "CommandConnection_run_command c command unattended exec_mode = Some (Returned d c')"
  shows "(raise_on_failure \<and> js_get d ''success'' = Inr (JBool False)
            \<and> js_get d ''result'' = Inr (JStr r)
          \<longrightarrow> RemoteExecution_run_command s command unattended exec_mode raise_on_failure
              = Some (Thrown (Error (''Remote Python Command failed! '' @ r @ ''.''))
                        (s\<lparr>re_command_connection := Some c'\<rparr>)))
       \<and> (\<not> raise_on_failure \<or> js_get d ''success'' = Inr (JBool True)
          \<longrightarrow> RemoteExecution_run_command s command unattended exec_mode raise_on_failure
              = Some (Returned d (s\<lparr>re_command_connection := Some c'\<rparr>)))"
  using assms by (auto simp: RemoteExecution_run_command_def Let_def)

end
